theory Spec2Isabelle
  imports Main "HOL-Library.Sublist"
begin

section \<open>Values and objects\<close>

text \<open>
  The library stores values of TypeScript type \<open>unknown\<close> (show-time arguments, flags,
  promise payloads). They are represented by a small universe of JavaScript data values;
  an object value lists its own enumerable properties in insertion order. Numbers are
  restricted to integers, and no value is callable.
\<close>

datatype jsval =
    JUndefined
  | JNull
  | JBool bool
  | JNum int
  | JStr string
  | JObj "(string \<times> jsval) list"

text \<open>JavaScript truthiness, as used by \<open>!x\<close> and \<open>!!x\<close>.\<close>

fun truthy :: "jsval \<Rightarrow> bool" where
  "truthy JUndefined = False"
| "truthy JNull = False"
| "truthy (JBool b) = b"
| "truthy (JNum n) = (n \<noteq> 0)"
| "truthy (JStr s) = (s \<noteq> [])"
| "truthy (JObj ps) = True"

text \<open>The values at which \<open>v?.p\<close> stops.\<close>

fun nullish :: "jsval \<Rightarrow> bool" where
  "nullish JUndefined = True"
| "nullish JNull = True"
| "nullish v = False"

text \<open>
  An object built by an object literal is the map of its own properties. A key bound to
  \<open>JUndefined\<close> is a property that is present with value \<open>undefined\<close>.
\<close>

type_synonym obj = "string \<rightharpoonup> jsval"

text \<open>\<open>{...o}\<close> for a record argument that may be \<open>undefined\<close>: nothing is copied then.\<close>

definition spread :: "obj option \<Rightarrow> obj" where
  "spread o_opt = (case o_opt of None \<Rightarrow> Map.empty | Some e \<Rightarrow> e)"

text \<open>
  Decimal rendering of a natural number without leading zeros, as a template string
  and the index keys of a string do it.
\<close>

definition digit_char :: "nat \<Rightarrow> char" where
  "digit_char d = ''0123456789'' ! (d mod 10)"

fun decimal :: "nat \<Rightarrow> string" where
  "decimal n = (if n div 10 = 0 then [digit_char n] else decimal (n div 10) @ [digit_char n])"

declare decimal.simps [simp del]

text \<open>
  The own enumerable properties of a value, which are what \<open>{...v}\<close> copies: those of an
  object, the indexed characters of a string, none for the other values.
\<close>

fun own_props :: "jsval \<Rightarrow> obj" where
  "own_props (JObj ps) = map_of ps"
| "own_props (JStr s) = map_of (zip (map decimal [0..<length s]) (map (\<lambda>c. JStr [c]) s))"
| "own_props v = Map.empty"

text \<open>\<open>o.k = v\<close> on the property list of an object.\<close>

fun assign :: "string \<Rightarrow> jsval \<Rightarrow> (string \<times> jsval) list \<Rightarrow> (string \<times> jsval) list" where
  "assign k v [] = [(k, v)]"
| "assign k v (p # ps) = (if fst p = k then (k, v) # ps else p # assign k v ps)"

section \<open>Property lookup through the prototype chain\<close>

text \<open>
  Every table of the module (\<open>initialState\<close>, \<open>MODAL_REGISTRY\<close>, \<open>ALREADY_MOUNTED\<close>,
  \<open>modalCallbacks\<close>, \<open>hideModalCallbacks\<close>) is an object literal \<open>{}\<close>, and the code reads
  it with \<open>table[id]\<close>. Such a read finds an own property first and a property of
  \<open>Object.prototype\<close> otherwise. \<open>Object.prototype\<close> is shared by all tables; it is
  represented by the map of its properties as a read through it finds them. A member
  function (\<open>constructor\<close>, \<open>toString\<close>, ...) is an object: it is truthy, and its
  enumerable own properties are those that were written on it, none at first. The
  accessor \<open>__proto__\<close> is not in the map: reading it yields \<open>Object.prototype\<close> itself,
  whose only enumerable own property can be \<open>props\<close>, the one property that the module
  ever writes on an object it has looked up.
\<close>

definition builtin_names :: "string list" where
  "builtin_names =
     [''constructor'', ''hasOwnProperty'', ''isPrototypeOf'', ''propertyIsEnumerable'',
      ''toLocaleString'', ''toString'', ''valueOf'', ''__defineGetter__'',
      ''__defineSetter__'', ''__lookupGetter__'', ''__lookupSetter__'']"

definition Object_prototype_initial :: obj where
  "Object_prototype_initial = map_of (map (\<lambda>n. (n, JObj [])) builtin_names)"

definition inherited :: "obj \<Rightarrow> string \<Rightarrow> jsval" where
  "inherited P k =
     (if k = ''__proto__''
      then JObj (case P ''props'' of None \<Rightarrow> [] | Some v \<Rightarrow> [(''props'', v)])
      else (case P k of None \<Rightarrow> JUndefined | Some v \<Rightarrow> v))"

text \<open>The result of \<open>table[k]\<close>: an own entry of the table, or what is inherited.\<close>

datatype 'a got = Own 'a | Inherited jsval

definition js_get :: "obj \<Rightarrow> (string \<rightharpoonup> 'a) \<Rightarrow> string \<Rightarrow> 'a got" where
  "js_get P t k = (case t k of Some a \<Rightarrow> Own a | None \<Rightarrow> Inherited (inherited P k))"

text \<open>
  Truthiness of \<open>table[k]\<close> for a table whose own entries are objects, which are
  truthy.
\<close>

fun present :: "'a got \<Rightarrow> bool" where
  "present (Own a) = True"
| "present (Inherited v) = truthy v"

text \<open>
  \<open>v.name\<close> for a value that is not nullish and a name that is not an index: an own
  property, or what the value inherits. The module reads the names \<open>comp\<close>, \<open>promise\<close>,
  \<open>resolve\<close>, \<open>reject\<close>, \<open>args\<close>, \<open>visible\<close> and \<open>keepMounted\<close> only.
\<close>

definition prop_of :: "obj \<Rightarrow> jsval \<Rightarrow> string \<Rightarrow> jsval" where
  "prop_of P v name = (case own_props v name of Some x \<Rightarrow> x | None \<Rightarrow> inherited P name)"

text \<open>\<open>e.name\<close> for a store entry, and \<open>table[k]?.name\<close> for a table of store entries.\<close>

definition entry_field :: "obj \<Rightarrow> obj \<Rightarrow> string \<Rightarrow> jsval" where
  "entry_field P e name = (case e name of Some x \<Rightarrow> x | None \<Rightarrow> inherited P name)"

definition opt_field :: "obj \<Rightarrow> obj got \<Rightarrow> string \<Rightarrow> jsval" where
  "opt_field P r name =
     (case r of
        Own e \<Rightarrow> entry_field P e name
      | Inherited v \<Rightarrow> (if nullish v then JUndefined else prop_of P v name))"

text \<open>\<open>{...table[k]}\<close> for a table of store entries.\<close>

fun spread_got :: "obj got \<Rightarrow> obj" where
  "spread_got (Own e) = e"
| "spread_got (Inherited v) = own_props v"

section \<open>Store, actions and reducer\<close>

text \<open>
  \<open>NiceModalState\<close> has the fields \<open>id\<close>, \<open>args\<close>, \<open>visible\<close>, \<open>delayVisible\<close> and
  \<open>keepMounted\<close>, all but \<open>id\<close> optional, and the \<open>set-flags\<close> action merges an arbitrary
  \<open>Record<string, unknown>\<close> into it, so an entry is an object. The store maps a modal
  id to its entry.
\<close>

type_synonym NiceModalState = obj

type_synonym NiceModalStore = "string \<rightharpoonup> NiceModalState"

record NiceModalPayload =
  modalId :: string
  args :: jsval
  flags :: "obj option"

record NiceModalAction =
  type :: string
  payload :: NiceModalPayload

text \<open>
  What the reducer reads besides its arguments: \<open>Object.prototype\<close>, the module-level
  \<open>ALREADY_MOUNTED\<close>, a \<open>Record<string, boolean>\<close>, and the module-level object
  \<open>initialState\<close>, the default of its first parameter. \<open>initialState\<close> is also the
  object that \<open>createStore\<close> wraps, so its contents change with the provider's store.
\<close>

record module_env =
  Object_prototype :: obj
  ALREADY_MOUNTED :: "string \<rightharpoonup> bool"
  initialState :: NiceModalStore

definition empty_store :: NiceModalStore where
  "empty_store = Map.empty"

definition module_initial :: module_env where
  "module_initial =
     \<lparr>Object_prototype = Object_prototype_initial,
      ALREADY_MOUNTED = Map.empty,
      initialState = empty_store\<rparr>"

text \<open>\<open>mounted env k\<close> is \<open>!!ALREADY_MOUNTED[k]\<close>.\<close>

definition mounted :: "'z module_env_scheme \<Rightarrow> string \<Rightarrow> bool" where
  "mounted env k =
     (case js_get (Object_prototype env) (ALREADY_MOUNTED env) k of
        Own b \<Rightarrow> b
      | Inherited v \<Rightarrow> truthy v)"

text \<open>
  The reducer. Its first parameter defaults to \<open>initialState\<close> when the caller passes
  \<open>undefined\<close> (\<open>None\<close>). Every branch builds a new store with own properties; the input
  is not mutated.
\<close>

definition reducer ::
  "'z module_env_scheme \<Rightarrow> NiceModalStore option \<Rightarrow> NiceModalAction \<Rightarrow> NiceModalStore" where
  "reducer env state_arg action =
     (let state = (case state_arg of None \<Rightarrow> initialState env | Some s \<Rightarrow> s);
          mid = modalId (payload action);
          cur = js_get (Object_prototype env) state mid
      in if type action = ''nice-modal/show'' then
           state(mid \<mapsto>
             (spread_got cur)
               (''id'' \<mapsto> JStr mid,
                ''args'' \<mapsto> args (payload action),
                ''visible'' \<mapsto> JBool (mounted env mid),
                ''delayVisible'' \<mapsto> JBool (\<not> mounted env mid)))
         else if type action = ''nice-modal/hide'' then
           (if \<not> present cur then state
            else state(mid \<mapsto> (spread_got cur)(''visible'' \<mapsto> JBool False)))
         else if type action = ''nice-modal/remove'' then
           state(mid := None)
         else if type action = ''nice-modal/set-flags'' then
           state(mid \<mapsto> spread_got cur ++ spread (flags (payload action)))
         else state)"

text \<open>Action creators.\<close>

definition showModal :: "string \<Rightarrow> jsval \<Rightarrow> NiceModalAction" where
  "showModal mid a =
     \<lparr>type = ''nice-modal/show'', payload = \<lparr>modalId = mid, args = a, flags = None\<rparr>\<rparr>"

definition setModalFlags :: "string \<Rightarrow> obj \<Rightarrow> NiceModalAction" where
  "setModalFlags mid fl =
     \<lparr>type = ''nice-modal/set-flags'',
      payload = \<lparr>modalId = mid, args = JUndefined, flags = Some fl\<rparr>\<rparr>"

definition hideModal :: "string \<Rightarrow> NiceModalAction" where
  "hideModal mid =
     \<lparr>type = ''nice-modal/hide'', payload = \<lparr>modalId = mid, args = JUndefined, flags = None\<rparr>\<rparr>"

definition removeModal :: "string \<Rightarrow> NiceModalAction" where
  "removeModal mid =
     \<lparr>type = ''nice-modal/remove'',
      payload = \<lparr>modalId = mid, args = JUndefined, flags = None\<rparr>\<rparr>"

text \<open>
  The actions dispatched since the store was empty, each with what the reducer read at
  the time of its dispatch, applied in order.
\<close>

definition dispatch_all :: "(module_env \<times> NiceModalAction) list \<Rightarrow> NiceModalStore" where
  "dispatch_all tr = foldl (\<lambda>s (env, a). reducer env (Some s) a) empty_store tr"

definition is_show :: "string \<Rightarrow> module_env \<times> NiceModalAction \<Rightarrow> bool" where
  "is_show k x = (type (snd x) = ''nice-modal/show'' \<and> modalId (payload (snd x)) = k)"

definition is_remove :: "string \<Rightarrow> module_env \<times> NiceModalAction \<Rightarrow> bool" where
  "is_remove k x = (type (snd x) = ''nice-modal/remove'' \<and> modalId (payload (snd x)) = k)"

definition is_set_flags :: "string \<Rightarrow> module_env \<times> NiceModalAction \<Rightarrow> bool" where
  "is_set_flags k x =
     (type (snd x) = ''nice-modal/set-flags'' \<and> modalId (payload (snd x)) = k)"

definition is_hide :: "string \<Rightarrow> module_env \<times> NiceModalAction \<Rightarrow> bool" where
  "is_hide k x = (type (snd x) = ''nice-modal/hide'' \<and> modalId (payload (snd x)) = k)"

text \<open>Whether a plain object inherits a truthy value under the name, at a step.\<close>

definition inherits :: "string \<Rightarrow> module_env \<times> NiceModalAction \<Rightarrow> bool" where
  "inherits k x = truthy (inherited (Object_prototype (fst x)) k)"

section \<open>Module state\<close>

datatype error = Error string | TypeError string

text \<open>The result of a call that is typed to return an \<open>'a\<close> and may return any value.\<close>

datatype 'a dyn = Typed 'a | Untyped jsval

record 'c registry_entry =
  comp :: 'c
  props :: jsval

text \<open>
  Promises are objects with identity: a promise is its address in a heap of promise
  states, and \<open>new Promise\<close> allocates the next address. The resolving functions handed
  to the executor settle their promise once; later calls do nothing. Payloads are
  plain values (no thenables).
\<close>

datatype promise_state = Pending | Fulfilled jsval | Rejected jsval

type_synonym promise_ref = nat

definition settle :: "promise_ref \<Rightarrow> promise_state \<Rightarrow> promise_state list \<Rightarrow> promise_state list" where
  "settle p st heap = (if p < length heap \<and> heap ! p = Pending then heap[p := st] else heap)"

record NiceModalCallback =
  resolve :: "jsval \<Rightarrow> promise_state list \<Rightarrow> promise_state list"
  reject :: "jsval \<Rightarrow> promise_state list \<Rightarrow> promise_state list"
  promise :: promise_ref

text \<open>
  \<open>new Promise((resolve, reject) => { theResolve = resolve; theReject = reject; })\<close>
  followed by the construction of the callback entry.
\<close>

definition new_callback :: "promise_state list \<Rightarrow> NiceModalCallback \<times> promise_state list" where
  "new_callback heap =
     (let p = length heap
      in (\<lparr>resolve = (\<lambda>v. settle p (Fulfilled v)),
           reject = (\<lambda>v. settle p (Rejected v)),
           promise = p\<rparr>,
          heap @ [Pending]))"

text \<open>
  The mutable state that the module's functions share: what the reducer reads, the
  other top-level tables, the symbol-keyed id property of component references
  (\<open>symModalId\<close>) and the promise heap.
\<close>

record 'c core = module_env +
  MODAL_REGISTRY :: "string \<rightharpoonup> 'c registry_entry"
  uidSeed :: nat
  modalCallbacks :: "string \<rightharpoonup> NiceModalCallback"
  hideModalCallbacks :: "string \<rightharpoonup> NiceModalCallback"
  symModalId :: "'c \<rightharpoonup> string"
  promises :: "promise_state list"

text \<open>
  The module variable \<open>dispatch\<close> holds the initial function, which throws, or a function
  that a provider installed. An installed function may do anything to the shared state
  before it returns or throws: the closure of \<open>InnerContextProvider\<close> publishes the next
  store to the UI framework, which runs the effects of the mounted components at once,
  and these call back into the module.
\<close>

datatype 'c dispatcher =
    DefaultDispatch
  | Installed "NiceModalAction \<Rightarrow> 'c core \<Rightarrow> error option \<times> 'c core"

record 'c globals = "'c core" +
  dispatch :: "'c dispatcher"

text \<open>A computation on a state that returns a value or throws; the state survives a throw.\<close>

type_synonym ('a, 's) eff = "'s \<Rightarrow> (error + 'a) \<times> 's"

definition no_dispatch_message :: string where
  "no_dispatch_message =
     ''No dispatch method detected, did you embed your app with NiceModal.Provider?''"

text \<open>Calling the function currently held by \<open>dispatch\<close>.\<close>

definition call_dispatch :: "NiceModalAction \<Rightarrow> (unit, 'c globals) eff" where
  "call_dispatch action g =
     (case dispatch g of
        DefaultDispatch \<Rightarrow> (Inl (Error no_dispatch_message), g)
      | Installed f \<Rightarrow>
          (case f action (core.truncate g) of
             (None, c) \<Rightarrow> (Inr (), core.extend c (core.more g))
           | (Some e, c) \<Rightarrow> (Inl e, core.extend c (core.more g))))"

definition getUid :: "'c globals \<Rightarrow> string \<times> 'c globals" where
  "getUid g = (''_nice_modal_'' @ decimal (uidSeed g), g\<lparr>uidSeed := Suc (uidSeed g)\<rparr>)"

datatype 'c modal_ref = ModalStr string | ModalComp 'c

text \<open>
  \<open>getModalId\<close>. The id of a component reference is kept in a property of the
  component under the module's private symbol \<open>symModalId\<close>; a missing or empty id is
  falsy and is replaced by a fresh one.
\<close>

definition getModalId :: "'c modal_ref \<Rightarrow> 'c globals \<Rightarrow> string \<times> 'c globals" where
  "getModalId modal g =
     (case modal of
        ModalStr s \<Rightarrow> (s, g)
      | ModalComp c \<Rightarrow>
          (let g1 = (if (case symModalId g c of None \<Rightarrow> True | Some i \<Rightarrow> i = [])
                     then (let (i, g') = getUid g
                           in g'\<lparr>symModalId := (symModalId g')(c \<mapsto> i)\<rparr>)
                     else g)
           in (case symModalId g1 c of None \<Rightarrow> [] | Some i \<Rightarrow> i, g1)))"

text \<open>The values of the module variables when the module has been loaded.\<close>

definition initial_globals :: "'c globals" where
  "initial_globals =
     \<lparr>Object_prototype = Object_prototype_initial,
      ALREADY_MOUNTED = Map.empty,
      initialState = empty_store,
      MODAL_REGISTRY = Map.empty,
      uidSeed = 0,
      modalCallbacks = Map.empty,
      hideModalCallbacks = Map.empty,
      symModalId = Map.empty,
      promises = [],
      dispatch = DefaultDispatch\<rparr>"

text \<open>
  What the providers do to the module state. \<open>InnerContextProvider\<close> wraps the object
  \<open>initialState\<close> in a store and installs a closure that reduces the store's contents
  and hands the result to \<open>setModals(reconcile(nextState))\<close>; that step belongs to the
  UI framework and is the parameter \<open>publish\<close>. \<open>Provider\<close> installs \<open>props.dispatch\<close>
  when both \<open>props.dispatch\<close> and \<open>props.modals\<close> are given.
\<close>

definition InnerContextProvider ::
  "(NiceModalStore \<Rightarrow> 'c core \<Rightarrow> error option \<times> 'c core) \<Rightarrow> 'c globals \<Rightarrow> 'c globals" where
  "InnerContextProvider publish g =
     g\<lparr>dispatch := Installed (\<lambda>action c. publish (reducer c (Some (initialState c)) action) c)\<rparr>"

definition Provider ::
  "(NiceModalStore \<Rightarrow> 'c core \<Rightarrow> error option \<times> 'c core) \<Rightarrow>
   (NiceModalAction \<Rightarrow> 'c core \<Rightarrow> error option \<times> 'c core) option \<Rightarrow> NiceModalStore option \<Rightarrow>
   'c globals \<Rightarrow> 'c globals" where
  "Provider publish dispatch_prop modals_prop g =
     (case (dispatch_prop, modals_prop) of
        (Some f, Some m) \<Rightarrow> g\<lparr>dispatch := Installed f\<rparr>
      | _ \<Rightarrow> InnerContextProvider publish g)"

text \<open>
  A \<open>props.dispatch\<close> that ignores the action, as a mock function does.
\<close>

definition mock_dispatch :: "NiceModalAction \<Rightarrow> 'c core \<Rightarrow> error option \<times> 'c core" where
  "mock_dispatch action c = (None, c)"

text \<open>The module state after \<open>Provider\<close> was rendered with that mock and an empty store.\<close>

definition mocked_globals :: "'c globals" where
  "mocked_globals =
     Provider (\<lambda>next c. (None, c)) (Some mock_dispatch) (Some empty_store) initial_globals"

section \<open>Registry\<close>

text \<open>
  \<open>register\<close>. When \<open>MODAL_REGISTRY[id]\<close> is falsy the assignment creates an own entry.
  Otherwise \<open>MODAL_REGISTRY[id].props = props\<close> writes on what the lookup found: the own
  entry, or the inherited object, which for the id \<open>__proto__\<close> is \<open>Object.prototype\<close>
  itself; on an inherited primitive the write throws, the module being strict code.
\<close>

definition register :: "string \<Rightarrow> 'c \<Rightarrow> jsval \<Rightarrow> (unit, 'c globals) eff" where
  "register k c p g =
     (case js_get (Object_prototype g) (MODAL_REGISTRY g) k of
        Own r \<Rightarrow> (Inr (), g\<lparr>MODAL_REGISTRY := (MODAL_REGISTRY g)(k \<mapsto> r\<lparr>props := p\<rparr>)\<rparr>)
      | Inherited v \<Rightarrow>
          (if \<not> truthy v
           then (Inr (), g\<lparr>MODAL_REGISTRY := (MODAL_REGISTRY g)(k \<mapsto> \<lparr>comp = c, props = p\<rparr>)\<rparr>)
           else if k = ''__proto__''
           then (Inr (), g\<lparr>Object_prototype := (Object_prototype g)(''props'' \<mapsto> p)\<rparr>)
           else (case v of
                   JObj ps \<Rightarrow>
                     (Inr (), g\<lparr>Object_prototype :=
                                   (Object_prototype g)(k \<mapsto> JObj (assign ''props'' p ps))\<rparr>)
                 | _ \<Rightarrow> (Inl (TypeError ''Cannot create property props''), g))))"

definition unregister :: "string \<Rightarrow> 'c globals \<Rightarrow> 'c globals" where
  "unregister k g = g\<lparr>MODAL_REGISTRY := (MODAL_REGISTRY g)(k := None)\<rparr>"

text \<open>\<open>getModal\<close>: \<open>MODAL_REGISTRY[modalId]?.comp\<close>.\<close>

definition getModal :: "string \<Rightarrow> 'c globals \<Rightarrow> 'c dyn" where
  "getModal mid g =
     (case js_get (Object_prototype g) (MODAL_REGISTRY g) mid of
        Own r \<Rightarrow> Typed (comp r)
      | Inherited v \<Rightarrow>
          Untyped (if nullish v then JUndefined else prop_of (Object_prototype g) v ''comp''))"

section \<open>Imperative API\<close>

text \<open>
  \<open>show\<close>, \<open>hide\<close> and \<open>remove\<close> of the module. A call returns \<open>Inl\<close> when it throws
  and \<open>Inr\<close> with its result otherwise; a returned promise is its address. \<open>show\<close> is
  given in three steps: what it does before it dispatches (resolve the id, register a
  component reference whose id has no truthy registry entry), the dispatch, and what it
  does afterwards (create the callback entry if \<open>modalCallbacks[modalId]\<close> is falsy,
  return \<open>modalCallbacks[modalId].promise\<close>).
\<close>

definition show_prepare :: "'c modal_ref \<Rightarrow> (string, 'c globals) eff" where
  "show_prepare modal g =
     (let (mid, g1) = getModalId modal g
      in case modal of
           ModalStr s \<Rightarrow> (Inr mid, g1)
         | ModalComp c \<Rightarrow>
             (if \<not> present (js_get (Object_prototype g1) (MODAL_REGISTRY g1) mid)
              then (case register mid c JUndefined g1 of
                      (Inl e, g2) \<Rightarrow> (Inl e, g2)
                    | (Inr u, g2) \<Rightarrow> (Inr mid, g2))
              else (Inr mid, g1)))"

definition show_finish :: "string \<Rightarrow> (promise_ref dyn, 'c globals) eff" where
  "show_finish mid g =
     (let g1 = (if \<not> present (js_get (Object_prototype g) (modalCallbacks g) mid)
                then (let (cb, heap) = new_callback (promises g)
                      in g\<lparr>modalCallbacks := (modalCallbacks g)(mid \<mapsto> cb),
                           promises := heap\<rparr>)
                else g)
      in case js_get (Object_prototype g1) (modalCallbacks g1) mid of
           Own cb \<Rightarrow> (Inr (Typed (promise cb)), g1)
         | Inherited v \<Rightarrow>
             (if nullish v then (Inl (TypeError ''Cannot read properties of undefined''), g1)
              else (Inr (Untyped (prop_of (Object_prototype g1) v ''promise'')), g1)))"

definition NiceModal_show :: "'c modal_ref \<Rightarrow> jsval \<Rightarrow> (promise_ref dyn, 'c globals) eff" where
  "NiceModal_show modal a g =
     (case show_prepare modal g of
        (Inl e, g1) \<Rightarrow> (Inl e, g1)
      | (Inr mid, g1) \<Rightarrow>
          (case call_dispatch (showModal mid a) g1 of
             (Inl e, g2) \<Rightarrow> (Inl e, g2)
           | (Inr u, g2) \<Rightarrow> show_finish mid g2))"

text \<open>
  \<open>hide\<close> after its dispatch: delete the show callback, create the hide callback if
  \<open>hideModalCallbacks[modalId]\<close> is falsy, return \<open>hideModalCallbacks[modalId].promise\<close>.
\<close>

definition hide_finish :: "string \<Rightarrow> (promise_ref dyn, 'c globals) eff" where
  "hide_finish mid g =
     (let g1 = g\<lparr>modalCallbacks := (modalCallbacks g)(mid := None)\<rparr>;
          g2 = (if \<not> present (js_get (Object_prototype g1) (hideModalCallbacks g1) mid)
                then (let (cb, heap) = new_callback (promises g1)
                      in g1\<lparr>hideModalCallbacks := (hideModalCallbacks g1)(mid \<mapsto> cb),
                            promises := heap\<rparr>)
                else g1)
      in case js_get (Object_prototype g2) (hideModalCallbacks g2) mid of
           Own cb \<Rightarrow> (Inr (Typed (promise cb)), g2)
         | Inherited v \<Rightarrow>
             (if nullish v then (Inl (TypeError ''Cannot read properties of undefined''), g2)
              else (Inr (Untyped (prop_of (Object_prototype g2) v ''promise'')), g2)))"

definition NiceModal_hide :: "'c modal_ref \<Rightarrow> (promise_ref dyn, 'c globals) eff" where
  "NiceModal_hide modal g =
     (let (mid, g1) = getModalId modal g
      in case call_dispatch (hideModal mid) g1 of
           (Inl e, g2) \<Rightarrow> (Inl e, g2)
         | (Inr u, g2) \<Rightarrow> hide_finish mid g2)"

definition NiceModal_remove :: "'c modal_ref \<Rightarrow> (unit, 'c globals) eff" where
  "NiceModal_remove modal g =
     (let (mid, g1) = getModalId modal g
      in case call_dispatch (removeModal mid) g1 of
           (Inl e, g2) \<Rightarrow> (Inl e, g2)
         | (Inr u, g2) \<Rightarrow>
             (Inr (), g2\<lparr>modalCallbacks := (modalCallbacks g2)(mid := None),
                         hideModalCallbacks := (hideModalCallbacks g2)(mid := None)\<rparr>))"

definition setFlags :: "string \<Rightarrow> obj \<Rightarrow> (unit, 'c globals) eff" where
  "setFlags mid fl g = call_dispatch (setModalFlags mid fl) g"

text \<open>
  The effect of the component wrapper \<open>create\<close> that persists its \<open>keepMounted\<close> prop:
  \<open>if (local.keepMounted) setFlags(local.id, { keepMounted: true })\<close>.
\<close>

definition keepMounted_flags :: obj where
  "keepMounted_flags = [''keepMounted'' \<mapsto> JBool True]"

definition create_keepMounted_effect :: "string \<Rightarrow> bool \<Rightarrow> (unit, 'c globals) eff" where
  "create_keepMounted_effect local_id local_keepMounted g =
     (if local_keepMounted then setFlags local_id keepMounted_flags g else (Inr (), g))"

section \<open>Handler view\<close>

text \<open>
  The object returned by \<open>useModal\<close>: the id, three getters that read the store found in
  \<open>NiceModalContext\<close>, and six bound methods. Getters and methods act on a state \<open>'s\<close>,
  so that a handler can also be a test double.
\<close>

record 's NiceModalHandler =
  h_id :: string
  h_args :: "'s \<Rightarrow> jsval"
  h_visible :: "'s \<Rightarrow> bool"
  h_keepMounted :: "'s \<Rightarrow> bool"
  h_show :: "jsval \<Rightarrow> (promise_ref dyn, 's) eff"
  h_hide :: "(promise_ref dyn, 's) eff"
  h_remove :: "(unit, 's) eff"
  h_resolve :: "jsval \<Rightarrow> (unit, 's) eff"
  h_reject :: "jsval \<Rightarrow> (unit, 's) eff"
  h_resolveHide :: "jsval \<Rightarrow> (unit, 's) eff"

text \<open>
  The bodies of \<open>resolve\<close>, \<open>reject\<close> and \<open>resolveHide\<close>:
  \<open>table[mid]?.resolve(payload); delete table[mid]\<close>. The optional chain skips the call
  only when \<open>table[mid]\<close> is nullish; an inherited object has no callable \<open>resolve\<close>, so
  the call throws and the \<open>delete\<close> is not reached.
\<close>

definition handler_resolve :: "string \<Rightarrow> jsval \<Rightarrow> (unit, 'c globals) eff" where
  "handler_resolve mid v g =
     (case js_get (Object_prototype g) (modalCallbacks g) mid of
        Own cb \<Rightarrow>
          (Inr (), g\<lparr>promises := resolve cb v (promises g),
                     modalCallbacks := (modalCallbacks g)(mid := None)\<rparr>)
      | Inherited x \<Rightarrow>
          (if nullish x then (Inr (), g\<lparr>modalCallbacks := (modalCallbacks g)(mid := None)\<rparr>)
           else (Inl (TypeError ''resolve is not a function''), g)))"

definition handler_reject :: "string \<Rightarrow> jsval \<Rightarrow> (unit, 'c globals) eff" where
  "handler_reject mid v g =
     (case js_get (Object_prototype g) (modalCallbacks g) mid of
        Own cb \<Rightarrow>
          (Inr (), g\<lparr>promises := reject cb v (promises g),
                     modalCallbacks := (modalCallbacks g)(mid := None)\<rparr>)
      | Inherited x \<Rightarrow>
          (if nullish x then (Inr (), g\<lparr>modalCallbacks := (modalCallbacks g)(mid := None)\<rparr>)
           else (Inl (TypeError ''reject is not a function''), g)))"

definition handler_resolveHide :: "string \<Rightarrow> jsval \<Rightarrow> (unit, 'c globals) eff" where
  "handler_resolveHide mid v g =
     (case js_get (Object_prototype g) (hideModalCallbacks g) mid of
        Own cb \<Rightarrow>
          (Inr (), g\<lparr>promises := resolve cb v (promises g),
                     hideModalCallbacks := (hideModalCallbacks g)(mid := None)\<rparr>)
      | Inherited x \<Rightarrow>
          (if nullish x
           then (Inr (), g\<lparr>hideModalCallbacks := (hideModalCallbacks g)(mid := None)\<rparr>)
           else (Inl (TypeError ''resolve is not a function''), g)))"

text \<open>
  \<open>useModal\<close>. \<open>ctx_id\<close> is the value of \<open>NiceModalIdContext\<close> and \<open>ctx\<close> reads the store
  of \<open>NiceModalContext\<close>. An absent or empty \<open>modal\<close> argument is falsy, and so is an
  empty id. The effect that registers a component reference runs after the call and is
  \<open>useModal_effect\<close>.
\<close>

definition useModal ::
  "'c modal_ref option \<Rightarrow> string option \<Rightarrow> ('c globals \<Rightarrow> NiceModalStore) \<Rightarrow>
   ('c globals NiceModalHandler, 'c globals) eff" where
  "useModal modal ctx_id ctx g =
     (let (modalId_opt, g1) =
            (case modal of
               None \<Rightarrow> (ctx_id, g)
             | Some (ModalStr []) \<Rightarrow> (ctx_id, g)
             | Some m \<Rightarrow> (let (i, g') = getModalId m g in (Some i, g')))
      in case modalId_opt of
           None \<Rightarrow> (Inl (Error ''No modal id found in NiceModal.useModal.''), g1)
         | Some mid \<Rightarrow>
             (if mid = [] then (Inl (Error ''No modal id found in NiceModal.useModal.''), g1)
              else
                (Inr \<lparr>h_id = mid,
                      h_args =
                        (\<lambda>s. opt_field (Object_prototype s)
                                (js_get (Object_prototype s) (ctx s) mid) ''args''),
                      h_visible =
                        (\<lambda>s. truthy (opt_field (Object_prototype s)
                                (js_get (Object_prototype s) (ctx s) mid) ''visible'')),
                      h_keepMounted =
                        (\<lambda>s. truthy (opt_field (Object_prototype s)
                                (js_get (Object_prototype s) (ctx s) mid) ''keepMounted'')),
                      h_show = (\<lambda>nextArgs. NiceModal_show (ModalStr mid) nextArgs),
                      h_hide = NiceModal_hide (ModalStr mid),
                      h_remove = NiceModal_remove (ModalStr mid),
                      h_resolve = handler_resolve mid,
                      h_reject = handler_reject mid,
                      h_resolveHide = handler_resolveHide mid\<rparr>,
                 g1)))"

definition useModal_effect :: "'c modal_ref option \<Rightarrow> jsval \<Rightarrow> string \<Rightarrow> (unit, 'c globals) eff" where
  "useModal_effect modal a mid g =
     (case modal of
        Some (ModalComp c) \<Rightarrow>
          (if \<not> present (js_get (Object_prototype g) (MODAL_REGISTRY g) mid)
           then register mid c a g else (Inr (), g))
      | _ \<Rightarrow> (Inr (), g))"

section \<open>Adapters\<close>

record 's antdModal_props =
  v4_visible :: bool
  v4_onOk :: "(promise_ref dyn, 's) eff"
  v4_onCancel :: "(promise_ref dyn, 's) eff"
  v4_afterClose :: "(unit, 's) eff"

record 's antdModalV5_props =
  v5_open :: bool
  v5_onOk :: "(promise_ref dyn, 's) eff"
  v5_onCancel :: "(promise_ref dyn, 's) eff"
  v5_afterClose :: "(unit, 's) eff"

text \<open>
  The adapter reads \<open>modal.visible\<close> when it is called, in state \<open>s\<close>; the triggers it
  returns run later. \<open>afterClose\<close> calls \<open>resolveHide\<close> with no argument, and reads
  \<open>modal.keepMounted\<close> after that call has returned.
\<close>

definition antdModal :: "'s NiceModalHandler \<Rightarrow> 's \<Rightarrow> 's antdModal_props" where
  "antdModal modal s =
     \<lparr>v4_visible = h_visible modal s,
      v4_onOk = h_hide modal,
      v4_onCancel = h_hide modal,
      v4_afterClose =
        (\<lambda>t. case h_resolveHide modal JUndefined t of
               (Inl e, t1) \<Rightarrow> (Inl e, t1)
             | (Inr u, t1) \<Rightarrow>
                 (if \<not> h_keepMounted modal t1 then h_remove modal t1 else (Inr (), t1)))\<rparr>"

definition antdModalV5 :: "'s NiceModalHandler \<Rightarrow> 's \<Rightarrow> 's antdModalV5_props" where
  "antdModalV5 modal s =
     (let r = antdModal modal s
      in \<lparr>v5_open = h_visible modal s,
          v5_onOk = v4_onOk r,
          v5_onCancel = v4_onCancel r,
          v5_afterClose = v4_afterClose r\<rparr>)"

text \<open>
  A recording wrapper in the manner of a test spy: each method of the wrapped handler
  first appends its call to a log carried beside the state, then runs.
\<close>

datatype call =
    CallShow jsval
  | CallHide
  | CallRemove
  | CallResolve jsval
  | CallReject jsval
  | CallResolveHide jsval

definition logged :: "call \<Rightarrow> ('a, 's) eff \<Rightarrow> ('a, 's \<times> call list) eff" where
  "logged c f = (\<lambda>(s, log). case f s of (r, s1) \<Rightarrow> (r, (s1, log @ [c])))"

definition spy :: "'s NiceModalHandler \<Rightarrow> ('s \<times> call list) NiceModalHandler" where
  "spy m =
     \<lparr>h_id = h_id m,
      h_args = (\<lambda>(s, log). h_args m s),
      h_visible = (\<lambda>(s, log). h_visible m s),
      h_keepMounted = (\<lambda>(s, log). h_keepMounted m s),
      h_show = (\<lambda>a. logged (CallShow a) (h_show m a)),
      h_hide = logged CallHide (h_hide m),
      h_remove = logged CallRemove (h_remove m),
      h_resolve = (\<lambda>v. logged (CallResolve v) (h_resolve m v)),
      h_reject = (\<lambda>v. logged (CallReject v) (h_reject m v)),
      h_resolveHide = (\<lambda>v. logged (CallResolveHide v) (h_resolveHide m v))\<rparr>"

text \<open>
  The handler object of the repository's adapter test: \<open>visible\<close> is true,
  \<open>keepMounted\<close> is false, and \<open>hide\<close>, \<open>resolveHide\<close> and \<open>remove\<close> are mock
  functions that do nothing and return \<open>undefined\<close>. The object has no other member, so
  calling one is a \<open>TypeError\<close>.
\<close>

definition test_modal :: "unit NiceModalHandler" where
  "test_modal =
     \<lparr>h_id = [],
      h_args = (\<lambda>s. JUndefined),
      h_visible = (\<lambda>s. True),
      h_keepMounted = (\<lambda>s. False),
      h_show = (\<lambda>a s. (Inl (TypeError ''modal.show is not a function''), s)),
      h_hide = (\<lambda>s. (Inr (Untyped JUndefined), s)),
      h_remove = (\<lambda>s. (Inr (), s)),
      h_resolve = (\<lambda>v s. (Inl (TypeError ''modal.resolve is not a function''), s)),
      h_reject = (\<lambda>v s. (Inl (TypeError ''modal.reject is not a function''), s)),
      h_resolveHide = (\<lambda>v s. (Inr (), s))\<rparr>"

section \<open>Lookups and the reducer, branch by branch\<close>

lemma js_get_own: "t k = Some a \<Longrightarrow> js_get P t k = Own a"
  by (simp add: js_get_def)

lemma js_get_inherited: "t k = None \<Longrightarrow> js_get P t k = Inherited (inherited P k)"
  by (simp add: js_get_def)

lemma inherited_initial_plain:
  "k \<notin> set builtin_names \<Longrightarrow> k \<noteq> ''__proto__'' \<Longrightarrow> inherited Object_prototype_initial k = JUndefined"
  by (simp add: inherited_def Object_prototype_initial_def map_of_map_restrict restrict_map_def)

lemma inherited_initial_builtin:
  "k \<in> set builtin_names \<Longrightarrow> inherited Object_prototype_initial k = JObj []"
  by (auto simp add: inherited_def Object_prototype_initial_def map_of_map_restrict
      restrict_map_def builtin_names_def)

lemma reducer_show:
  "reducer env (Some state) (showModal k a) =
     state(k \<mapsto> (spread_got (js_get (Object_prototype env) state k))
        (''id'' \<mapsto> JStr k, ''args'' \<mapsto> a, ''visible'' \<mapsto> JBool (mounted env k),
         ''delayVisible'' \<mapsto> JBool (\<not> mounted env k)))"
  by (simp add: reducer_def showModal_def)

lemma reducer_hide:
  "reducer env (Some state) (hideModal k) =
     (if \<not> present (js_get (Object_prototype env) state k) then state
      else state(k \<mapsto> (spread_got (js_get (Object_prototype env) state k))
                          (''visible'' \<mapsto> JBool False)))"
  by (simp add: reducer_def hideModal_def)

lemma reducer_remove:
  "reducer env (Some state) (removeModal k) = state(k := None)"
  by (simp add: reducer_def removeModal_def)

lemma reducer_set_flags:
  "reducer env (Some state) (setModalFlags k fl) =
     state(k \<mapsto> spread_got (js_get (Object_prototype env) state k) ++ fl)"
  by (simp add: reducer_def setModalFlags_def spread_def)

lemma reducer_other_id:
  "k \<noteq> modalId (payload action) \<Longrightarrow> reducer env (Some state) action k = state k"
  by (simp add: reducer_def Let_def)

lemma mounted_own: "ALREADY_MOUNTED env k = Some b \<Longrightarrow> mounted env k = b"
  by (simp add: mounted_def js_get_def)

lemma mounted_absent:
  "ALREADY_MOUNTED env k = None \<Longrightarrow> mounted env k = truthy (inherited (Object_prototype env) k)"
  by (simp add: mounted_def js_get_def)

lemma show_writes_entry:
  "\<exists>e. reducer env (Some state) (showModal k a) k = Some e
     \<and> e ''visible'' = Some (JBool (mounted env k))
     \<and> e ''delayVisible'' = Some (JBool (\<not> mounted env k))
     \<and> e ''args'' = Some a"
  by (simp add: reducer_show)

lemma show_on_plain_id:
  assumes "\<not> truthy (inherited (Object_prototype env) k)"
  shows "\<exists>e. reducer env (Some state) (showModal k a) k = Some e
     \<and> e ''visible'' = Some (JBool (ALREADY_MOUNTED env k = Some True))
     \<and> e ''delayVisible'' = Some (JBool (ALREADY_MOUNTED env k \<noteq> Some True))
     \<and> e ''args'' = Some a"
proof -
  have "mounted env k = (ALREADY_MOUNTED env k = Some True)"
    using assms by (cases "ALREADY_MOUNTED env k") (auto simp add: mounted_own mounted_absent)
  then show ?thesis
    by (simp add: reducer_show)
qed

text \<open>
  C1 holds for every id under which a plain object inherits nothing truthy
  (\<open>show_on_plain_id\<close>), and fails otherwise: \<open>!!ALREADY_MOUNTED[modalId]\<close> is true for
  the name of a member of \<open>Object.prototype\<close>. With nothing mounted, reducing
  \<open>show('toString')\<close> on the empty store gives an entry whose \<open>visible\<close> is true and whose
  \<open>delayVisible\<close> is false, where the claim has false and true.
\<close>

theorem show_inherited_name_visible:
  "ALREADY_MOUNTED module_initial ''toString'' = None
   \<and> (\<exists>e. reducer module_initial (Some empty_store) (showModal ''toString'' JUndefined) ''toString''
            = Some e
        \<and> e ''visible'' = Some (JBool True)
        \<and> e ''delayVisible'' = Some (JBool False))"
proof -
  have a: "ALREADY_MOUNTED module_initial ''toString'' = None"
    by (simp add: module_initial_def)
  have "inherited (Object_prototype module_initial) ''toString'' = JObj []"
    by (simp add: module_initial_def inherited_initial_builtin builtin_names_def)
  with a have "mounted module_initial ''toString''"
    by (simp add: mounted_absent)
  with a show ?thesis
    by (simp add: reducer_show)
qed

section \<open>Hiding\<close>

lemma hide_on_plain_id:
  "(state k = None \<and> \<not> truthy (inherited (Object_prototype env) k) \<longrightarrow>
      reducer env (Some state) (hideModal k) = state)
   \<and> (state k = Some e \<longrightarrow>
        reducer env (Some state) (hideModal k) = state(k \<mapsto> e(''visible'' \<mapsto> JBool False)))"
  by (simp add: reducer_hide js_get_def)

text \<open>
  C5 holds for every id under which a plain object inherits nothing truthy
  (\<open>hide_on_plain_id\<close>), and fails otherwise: the guard \<open>if (!state[modalId]) return state\<close>
  does not return for the name of a member of \<open>Object.prototype\<close>. Reducing
  \<open>hide('constructor')\<close> on the empty store, which has no entry for that id, gives a
  store with the entry \<open>{visible: false}\<close> for it.
\<close>

theorem hide_inherited_name_creates_entry:
  "empty_store ''constructor'' = None
   \<and> reducer module_initial (Some empty_store) (hideModal ''constructor'') ''constructor''
       = Some [''visible'' \<mapsto> JBool False]"
proof -
  have e: "empty_store ''constructor'' = None"
    by (simp add: empty_store_def)
  have "inherited (Object_prototype module_initial) ''constructor'' = JObj []"
    by (simp add: module_initial_def inherited_initial_builtin builtin_names_def)
  with e have "js_get (Object_prototype module_initial) empty_store ''constructor''
                 = Inherited (JObj [])"
    by (simp add: js_get_inherited)
  with e show ?thesis
    by (simp add: reducer_hide)
qed

section \<open>Presence of an id in the store\<close>

lemma dispatch_all_snoc:
  "dispatch_all (tr @ [x]) = reducer (fst x) (Some (dispatch_all tr)) (snd x)"
  by (simp add: dispatch_all_def split_beta)

lemma dispatch_all_Nil: "dispatch_all [] k = None"
  by (simp add: dispatch_all_def empty_store_def)

lemma reducer_presence:
  "(reducer env (Some s) a k \<noteq> None) =
     (is_show k (env, a) \<or> is_set_flags k (env, a)
      \<or> (s k \<noteq> None \<and> \<not> is_remove k (env, a))
      \<or> (is_hide k (env, a) \<and> inherits k (env, a)))"
  by (auto simp add: reducer_def Let_def is_show_def is_set_flags_def is_remove_def
      is_hide_def inherits_def js_get_def split: option.splits)

lemma kept_snoc:
  "(\<exists>pre y post. tr @ [x] = pre @ y # post \<and> (is_show k y \<or> is_set_flags k y)
        \<and> (\<forall>z\<in>set post. \<not> is_remove k z))
   = ((is_show k x \<or> is_set_flags k x)
      \<or> ((\<exists>pre y post. tr = pre @ y # post \<and> (is_show k y \<or> is_set_flags k y)
              \<and> (\<forall>z\<in>set post. \<not> is_remove k z))
          \<and> \<not> is_remove k x))"
  (is "?L = (?C x \<or> (?R \<and> \<not> is_remove k x))")
proof
  assume ?L
  then obtain pre y post where
    split: "tr @ [x] = pre @ y # post" and c: "?C y" and r: "\<forall>z\<in>set post. \<not> is_remove k z"
    by blast
  show "?C x \<or> (?R \<and> \<not> is_remove k x)"
  proof (cases post rule: rev_cases)
    case Nil
    with split have "y = x" by simp
    with c show ?thesis by simp
  next
    case (snoc post' z)
    with split have tr: "tr = pre @ y # post'" and zx: "z = x" by simp_all
    from r snoc have r': "\<forall>z\<in>set post'. \<not> is_remove k z" and "\<not> is_remove k z"
      by simp_all
    with zx have nx: "\<not> is_remove k x" by simp
    from tr c r' have ?R by blast
    with nx show ?thesis by blast
  qed
next
  assume "?C x \<or> (?R \<and> \<not> is_remove k x)"
  then show ?L
  proof
    assume "?C x"
    then have "tr @ [x] = tr @ x # [] \<and> ?C x \<and> (\<forall>y\<in>set []. \<not> is_remove k y)"
      by simp
    then show ?thesis by blast
  next
    assume "?R \<and> \<not> is_remove k x"
    then obtain pre y post where
      "tr = pre @ y # post" "?C y" "\<forall>z\<in>set post. \<not> is_remove k z" "\<not> is_remove k x"
      by blast
    then have "tr @ [x] = pre @ y # (post @ [x]) \<and> ?C y
                 \<and> (\<forall>z\<in>set (post @ [x]). \<not> is_remove k z)"
      by auto
    then show ?thesis by blast
  qed
qed

lemma kept_present:
  "\<exists>pre y post. tr = pre @ y # post \<and> (is_show k y \<or> is_set_flags k y)
        \<and> (\<forall>z\<in>set post. \<not> is_remove k z) \<Longrightarrow> dispatch_all tr k \<noteq> None"
proof (induction tr rule: rev_induct)
  case Nil
  then show ?case by simp
next
  case (snoc x tr)
  from snoc.prems kept_snoc [of tr x k]
  have "(is_show k x \<or> is_set_flags k x)
      \<or> ((\<exists>pre y post. tr = pre @ y # post \<and> (is_show k y \<or> is_set_flags k y)
              \<and> (\<forall>z\<in>set post. \<not> is_remove k z))
          \<and> \<not> is_remove k x)"
    by blast
  with snoc.IH have "(is_show k x \<or> is_set_flags k x)
      \<or> (dispatch_all tr k \<noteq> None \<and> \<not> is_remove k x)"
    by blast
  with reducer_presence [of "fst x" "dispatch_all tr" "snd x" k]
  have "reducer (fst x) (Some (dispatch_all tr)) (snd x) k \<noteq> None"
    by auto
  then show ?case
    by (simp add: dispatch_all_snoc)
qed

lemma present_kept:
  "\<forall>x\<in>set tr. \<not> inherits k x \<Longrightarrow> dispatch_all tr k \<noteq> None \<Longrightarrow>
   \<exists>pre y post. tr = pre @ y # post \<and> (is_show k y \<or> is_set_flags k y)
        \<and> (\<forall>z\<in>set post. \<not> is_remove k z)"
proof (induction tr rule: rev_induct)
  case Nil
  then show ?case by (simp add: dispatch_all_Nil)
next
  case (snoc x tr)
  from snoc.prems(1) have nx: "\<not> inherits k x" and nt: "\<forall>y\<in>set tr. \<not> inherits k y"
    by simp_all
  from snoc.prems(2) have "reducer (fst x) (Some (dispatch_all tr)) (snd x) k \<noteq> None"
    by (simp add: dispatch_all_snoc)
  with nx reducer_presence [of "fst x" "dispatch_all tr" "snd x" k]
  have "(is_show k x \<or> is_set_flags k x)
      \<or> (dispatch_all tr k \<noteq> None \<and> \<not> is_remove k x)"
    by auto
  with snoc.IH [OF nt] have "(is_show k x \<or> is_set_flags k x)
      \<or> ((\<exists>pre y post. tr = pre @ y # post \<and> (is_show k y \<or> is_set_flags k y)
              \<and> (\<forall>z\<in>set post. \<not> is_remove k z))
          \<and> \<not> is_remove k x)"
    by blast
  then show ?case
    by (simp only: kept_snoc)
qed

lemma absent_cases:
  "dispatch_all tr k = None \<Longrightarrow> (\<forall>x\<in>set tr. \<not> is_show k x) \<or> (\<exists>x\<in>set tr. is_remove k x)"
proof (rule ccontr)
  assume abs: "dispatch_all tr k = None"
  assume "\<not> ((\<forall>x\<in>set tr. \<not> is_show k x) \<or> (\<exists>x\<in>set tr. is_remove k x))"
  then obtain x where x: "x \<in> set tr" "is_show k x" and nr: "\<forall>y\<in>set tr. \<not> is_remove k y"
    by blast
  from x(1) obtain pre post where "tr = pre @ x # post"
    by (auto simp add: in_set_conv_decomp)
  moreover from nr have "\<forall>y\<in>set post. \<not> is_remove k y"
    using \<open>tr = pre @ x # post\<close> by simp
  ultimately have "\<exists>pre x post. tr = pre @ x # post \<and> (is_show k x \<or> is_set_flags k x)
        \<and> (\<forall>y\<in>set post. \<not> is_remove k y)"
    using x(2) by blast
  then have "dispatch_all tr k \<noteq> None"
    by (rule kept_present)
  with abs show False by simp
qed

text \<open>
  C3, as stated, fails. The \<open>set-flags\<close> branch of the reducer writes an entry whether or
  not one exists, and the component wrapper \<open>create\<close> dispatches
  \<open>set-flags(id, {keepMounted: true})\<close> when it is given the \<open>keepMounted\<close> prop. After
  that single action on the empty store the id is present, and no \<open>show\<close> action was
  dispatched.
\<close>

theorem presence_needs_show_counterexample:
  "dispatch_all [(module_initial, setModalFlags ''m1'' keepMounted_flags)] ''m1''
     = Some keepMounted_flags
   \<and> \<not> is_show ''m1'' (module_initial, setModalFlags ''m1'' keepMounted_flags)"
proof -
  have "inherited (Object_prototype module_initial) ''m1'' = JUndefined"
    by (simp add: module_initial_def inherited_initial_plain builtin_names_def)
  then have "dispatch_all [(module_initial, setModalFlags ''m1'' keepMounted_flags)] ''m1''
          = Some keepMounted_flags"
    by (simp add: dispatch_all_def reducer_set_flags empty_store_def js_get_def)
  moreover have
    "\<not> is_show ''m1'' (module_initial, setModalFlags ''m1'' keepMounted_flags)"
    by (simp add: is_show_def setModalFlags_def)
  ultimately show ?thesis by simp
qed

text \<open>
  C3, amended. In the store reached from the empty store by a sequence of dispatched
  actions, an id under which a plain object inherits nothing truthy is present exactly
  when some \<open>show\<close> or \<open>set-flags\<close> action for the id was dispatched and no \<open>remove\<close>
  action for it was dispatched afterwards. For every id, such an action with no later
  \<open>remove\<close> leaves the id present, and when the id is absent, it was never shown or a
  \<open>remove\<close> action for it was dispatched.
\<close>

theorem store_presence:
  "((\<forall>x\<in>set tr. \<not> inherits k x) \<longrightarrow>
      (dispatch_all tr k \<noteq> None) =
        (\<exists>pre x post. tr = pre @ x # post \<and> (is_show k x \<or> is_set_flags k x)
           \<and> (\<forall>y\<in>set post. \<not> is_remove k y)))
   \<and> ((\<exists>pre x post. tr = pre @ x # post \<and> (is_show k x \<or> is_set_flags k x)
           \<and> (\<forall>y\<in>set post. \<not> is_remove k y)) \<longrightarrow> dispatch_all tr k \<noteq> None)
   \<and> (dispatch_all tr k = None \<longrightarrow>
        (\<forall>x\<in>set tr. \<not> is_show k x) \<or> (\<exists>x\<in>set tr. is_remove k x))"
  using present_kept [of tr k] kept_present [of tr k] absent_cases [of tr k] by blast

theorem store_presence_witness:
  "\<not> inherits ''m1'' (module_initial, showModal ''m1'' JUndefined)
   \<and> \<not> inherits ''m1'' (module_initial, hideModal ''m1'')
   \<and> dispatch_all [(module_initial, showModal ''m1'' JUndefined),
                    (module_initial, hideModal ''m1'')] ''m1'' \<noteq> None
   \<and> dispatch_all [(module_initial, showModal ''m1'' JUndefined),
                    (module_initial, removeModal ''m1'')] ''m1'' = None
   \<and> (\<exists>x\<in>set [(module_initial, showModal ''m1'' JUndefined),
                 (module_initial, removeModal ''m1'')]. is_remove ''m1'' x)
   \<and> dispatch_all [(module_initial, hideModal ''m1'')] ''m1'' = None"
proof -
  let ?s = "(module_initial, showModal ''m1'' JUndefined)"
  let ?h = "(module_initial, hideModal ''m1'')"
  let ?r = "(module_initial, removeModal ''m1'')"
  have i: "inherited (Object_prototype module_initial) ''m1'' = JUndefined"
    by (simp add: module_initial_def inherited_initial_plain builtin_names_def)
  then have ni: "\<not> inherits ''m1'' ?s" "\<not> inherits ''m1'' ?h"
    by (simp_all add: inherits_def)
  have s: "is_show ''m1'' ?s"
    by (simp add: is_show_def showModal_def)
  have h: "\<not> is_remove ''m1'' ?h" "\<not> is_show ''m1'' ?h" "\<not> is_set_flags ''m1'' ?h"
    by (simp_all add: is_remove_def is_show_def is_set_flags_def hideModal_def)
  have "[?s, ?h] = [] @ ?s # [?h] \<and> (is_show ''m1'' ?s \<or> is_set_flags ''m1'' ?s)
          \<and> (\<forall>y\<in>set [?h]. \<not> is_remove ''m1'' y)"
    using s h by simp
  then have "\<exists>pre x post. [?s, ?h] = pre @ x # post
               \<and> (is_show ''m1'' x \<or> is_set_flags ''m1'' x)
               \<and> (\<forall>y\<in>set post. \<not> is_remove ''m1'' y)"
    by blast
  with store_presence [of "[?s, ?h]" "''m1''"] have p: "dispatch_all [?s, ?h] ''m1'' \<noteq> None"
    by blast
  have a: "dispatch_all [?s, ?r] ''m1'' = None"
    by (simp add: dispatch_all_def reducer_remove)
  have "\<not> (\<forall>x\<in>set [?s, ?r]. \<not> is_show ''m1'' x)"
    using s by simp
  with a store_presence [of "[?s, ?r]" "''m1''"] have e: "\<exists>x\<in>set [?s, ?r]. is_remove ''m1'' x"
    by blast
  have "\<not> (\<exists>pre x post. [?h] = pre @ x # post
               \<and> (is_show ''m1'' x \<or> is_set_flags ''m1'' x)
               \<and> (\<forall>y\<in>set post. \<not> is_remove ''m1'' y))"
    using h by (auto simp add: Cons_eq_append_conv)
  moreover have "\<forall>x\<in>set [?h]. \<not> inherits ''m1'' x"
    using ni by simp
  ultimately have o: "dispatch_all [?h] ''m1'' = None"
    using store_presence [of "[?h]" "''m1''"] by blast
  from ni p a e o show ?thesis by blast
qed

section \<open>Removal\<close>

text \<open>
  C8. Reducing \<open>remove(id)\<close> a second time gives the store that reducing it once gave:
  after the first, the id has no entry, and on a store without an entry for the id the
  action changes nothing.
\<close>

theorem remove_idempotent:
  "reducer env' (Some (reducer env (Some state) (removeModal k))) (removeModal k)
     = reducer env (Some state) (removeModal k)
   \<and> reducer env (Some state) (removeModal k) k = None
   \<and> (state k = None \<longrightarrow> reducer env (Some state) (removeModal k) = state)"
  by (auto simp add: reducer_remove)

theorem remove_idempotent_witness:
  "reducer module_initial
     (Some (reducer module_initial (Some [''m1'' \<mapsto> keepMounted_flags])
        (removeModal ''m1''))) (removeModal ''m1'')
     = reducer module_initial (Some [''m1'' \<mapsto> keepMounted_flags]) (removeModal ''m1'')
   \<and> reducer module_initial (Some [''m1'' \<mapsto> keepMounted_flags]) (removeModal ''m1'')
        ''m1'' = None
   \<and> empty_store ''m1'' = None
   \<and> reducer module_initial (Some empty_store) (removeModal ''m1'') = empty_store"
  using remove_idempotent [of module_initial module_initial
      "[''m1'' \<mapsto> keepMounted_flags]" "''m1''"]
    remove_idempotent [of module_initial module_initial empty_store "''m1''"]
  by (simp add: empty_store_def)

section \<open>Frame of the reducer\<close>

text \<open>
  C10. Reducing \<open>show(id, args)\<close> on a store that has an entry for the id keeps the
  entry's \<open>keepMounted\<close> field, and every other field except \<open>id\<close>, \<open>args\<close>, \<open>visible\<close>
  and \<open>delayVisible\<close>. Every action, of any type, leaves the entry of every id other
  than its \<open>modalId\<close> as it was.
\<close>

theorem show_frame:
  "(state k = Some e \<longrightarrow>
      (\<exists>e'. reducer env (Some state) (showModal k a) k = Some e'
         \<and> e' ''keepMounted'' = e ''keepMounted''
         \<and> (\<forall>f. f \<notin> {''id'', ''args'', ''visible'', ''delayVisible''} \<longrightarrow> e' f = e f)))
   \<and> (k' \<noteq> modalId (payload action) \<longrightarrow> reducer env (Some state) action k' = state k')"
  by (simp add: reducer_show reducer_other_id js_get_def)

theorem show_frame_witness:
  "[''m1'' \<mapsto> keepMounted_flags, ''m2'' \<mapsto> keepMounted_flags] ''m1'' = Some keepMounted_flags
   \<and> (\<exists>e'. reducer module_initial
              (Some [''m1'' \<mapsto> keepMounted_flags, ''m2'' \<mapsto> keepMounted_flags])
              (showModal ''m1'' JUndefined) ''m1'' = Some e'
         \<and> e' ''keepMounted'' = Some (JBool True))
   \<and> ''m2'' \<noteq> modalId (payload (showModal ''m1'' JUndefined))
   \<and> reducer module_initial
              (Some [''m1'' \<mapsto> keepMounted_flags, ''m2'' \<mapsto> keepMounted_flags])
              (showModal ''m1'' JUndefined) ''m2'' = Some keepMounted_flags"
proof -
  let ?st = "[''m1'' \<mapsto> keepMounted_flags, ''m2'' \<mapsto> keepMounted_flags]"
  have h: "?st ''m1'' = Some keepMounted_flags"
    by simp
  have n: "''m2'' \<noteq> modalId (payload (showModal ''m1'' JUndefined))"
    by (simp add: showModal_def)
  have km: "keepMounted_flags ''keepMounted'' = Some (JBool True)"
    by (simp add: keepMounted_flags_def)
  have m2: "?st ''m2'' = Some keepMounted_flags"
    by simp
  from show_frame [of ?st "''m1''" keepMounted_flags module_initial JUndefined
      "''m2''" "showModal ''m1'' JUndefined"] h n
  have "(\<exists>e'. reducer module_initial (Some ?st) (showModal ''m1'' JUndefined) ''m1''
               = Some e'
            \<and> e' ''keepMounted'' = keepMounted_flags ''keepMounted'')
        \<and> reducer module_initial (Some ?st) (showModal ''m1'' JUndefined) ''m2''
            = ?st ''m2''"
    by blast
  with h n km m2 show ?thesis
    by metis
qed

section \<open>Id resolution and dispatch\<close>

lemma extend_dispatch [simp]: "dispatch (core.extend c (core.more g)) = dispatch g"
  by (cases g) (simp add: core.extend_def)

lemma extend_fields [simp]:
  "modalCallbacks (core.extend c m) = modalCallbacks c"
  "hideModalCallbacks (core.extend c m) = hideModalCallbacks c"
  "promises (core.extend c m) = promises c"
  "MODAL_REGISTRY (core.extend c m) = MODAL_REGISTRY c"
  "Object_prototype (core.extend c m) = Object_prototype c"
  "symModalId (core.extend c m) = symModalId c"
  by (simp_all add: core.extend_def)

lemma truncate_fields [simp]:
  "modalCallbacks (core.truncate g) = modalCallbacks g"
  "hideModalCallbacks (core.truncate g) = hideModalCallbacks g"
  "promises (core.truncate g) = promises g"
  "MODAL_REGISTRY (core.truncate g) = MODAL_REGISTRY g"
  "Object_prototype (core.truncate g) = Object_prototype g"
  "symModalId (core.truncate g) = symModalId g"
  by (simp_all add: core.truncate_def)

lemma extend_truncate [simp]: "core.extend (core.truncate g) (core.more g) = g"
  by (cases g) (simp add: core.extend_def core.truncate_def)

lemma call_dispatch_keeps_dispatch:
  "call_dispatch action g = (r, g') \<Longrightarrow> dispatch g' = dispatch g"
  by (auto simp add: call_dispatch_def split: dispatcher.splits prod.splits option.splits)

lemma call_dispatch_default:
  "dispatch g = DefaultDispatch \<Longrightarrow> call_dispatch action g = (Inl (Error no_dispatch_message), g)"
  by (simp add: call_dispatch_def)

lemma call_dispatch_mock:
  "dispatch g = Installed mock_dispatch \<Longrightarrow> call_dispatch action g = (Inr (), g)"
  by (simp add: call_dispatch_def mock_dispatch_def)

lemma getModalId_str [simp]: "getModalId (ModalStr k) g = (k, g)"
  by (simp add: getModalId_def)

lemma getModalId_comp:
  "getModalId (ModalComp c) g =
     (if (case symModalId g c of None \<Rightarrow> True | Some i \<Rightarrow> i = [])
      then (''_nice_modal_'' @ decimal (uidSeed g),
            g\<lparr>uidSeed := Suc (uidSeed g),
               symModalId := (symModalId g)(c \<mapsto> ''_nice_modal_'' @ decimal (uidSeed g))\<rparr>)
      else (case symModalId g c of None \<Rightarrow> [] | Some i \<Rightarrow> i, g))"
  by (simp add: getModalId_def getUid_def Let_def)

lemma getModalId_frame:
  assumes "getModalId modal g = (mid, g1)"
  shows "dispatch g1 = dispatch g" "modalCallbacks g1 = modalCallbacks g"
    "hideModalCallbacks g1 = hideModalCallbacks g" "promises g1 = promises g"
    "MODAL_REGISTRY g1 = MODAL_REGISTRY g" "Object_prototype g1 = Object_prototype g"
  using assms
  by (cases modal; auto simp add: getModalId_comp split: if_splits)+

lemma register_insert:
  assumes "\<not> present (js_get (Object_prototype g) (MODAL_REGISTRY g) k)"
  shows "register k c p g =
           (Inr (), g\<lparr>MODAL_REGISTRY := (MODAL_REGISTRY g)(k \<mapsto> \<lparr>comp = c, props = p\<rparr>)\<rparr>)"
  using assms
  by (cases "js_get (Object_prototype g) (MODAL_REGISTRY g) k") (simp_all add: register_def)

lemma show_prepare_returns:
  "\<exists>mid g1. show_prepare modal g = (Inr mid, g1) \<and> mid = fst (getModalId modal g)
      \<and> dispatch g1 = dispatch g \<and> modalCallbacks g1 = modalCallbacks g
      \<and> hideModalCallbacks g1 = hideModalCallbacks g \<and> promises g1 = promises g
      \<and> Object_prototype g1 = Object_prototype g"
proof -
  obtain k g0 where id: "getModalId modal g = (k, g0)"
    by (cases "getModalId modal g")
  note fr = getModalId_frame [OF id]
  show ?thesis
  proof (cases modal)
    case (ModalStr s)
    with id fr show ?thesis
      by (simp add: show_prepare_def)
  next
    case (ModalComp c)
    show ?thesis
    proof (cases "present (js_get (Object_prototype g0) (MODAL_REGISTRY g0) k)")
      case True
      with id fr ModalComp show ?thesis
        by (simp add: show_prepare_def)
    next
      case False
      from register_insert [OF False, of c JUndefined] id fr ModalComp False show ?thesis
        by (simp add: show_prepare_def)
    qed
  qed
qed

section \<open>Calls before a provider\<close>

text \<open>
  C7. While \<open>dispatch\<close> still holds its initial function, every call of \<open>show\<close>,
  \<open>hide\<close>, \<open>remove\<close> and \<open>setFlags\<close> throws: the call returns no promise and allocates
  none, and the error's message contains \<open>NiceModal.Provider\<close>.
\<close>

theorem no_provider_throws:
  assumes "dispatch g = DefaultDispatch"
  shows "(\<exists>g'. NiceModal_show modal a g = (Inl (Error no_dispatch_message), g')
            \<and> promises g' = promises g \<and> modalCallbacks g' = modalCallbacks g)
       \<and> (\<exists>g'. NiceModal_hide modal g = (Inl (Error no_dispatch_message), g')
            \<and> promises g' = promises g \<and> hideModalCallbacks g' = hideModalCallbacks g)
       \<and> (\<exists>g'. NiceModal_remove modal g = (Inl (Error no_dispatch_message), g'))
       \<and> setFlags mid fl g = (Inl (Error no_dispatch_message), g)
       \<and> sublist ''NiceModal.Provider'' no_dispatch_message"
proof -
  obtain k g1 where id: "getModalId modal g = (k, g1)"
    by (cases "getModalId modal g")
  note fr = getModalId_frame [OF id]
  have d1: "dispatch g1 = DefaultDispatch"
    using fr(1) assms by simp
  from show_prepare_returns [of modal g] obtain k2 g2 where
    sp: "show_prepare modal g = (Inr k2, g2)" and d2: "dispatch g2 = dispatch g"
    and f2: "modalCallbacks g2 = modalCallbacks g" "promises g2 = promises g"
    by blast
  from d2 assms have "dispatch g2 = DefaultDispatch" by simp
  then have "NiceModal_show modal a g = (Inl (Error no_dispatch_message), g2)"
    using sp by (simp add: NiceModal_show_def call_dispatch_default)
  then have s: "\<exists>g'. NiceModal_show modal a g = (Inl (Error no_dispatch_message), g')
            \<and> promises g' = promises g \<and> modalCallbacks g' = modalCallbacks g"
    using f2 by simp
  have "NiceModal_hide modal g = (Inl (Error no_dispatch_message), g1)"
    using id d1 by (simp add: NiceModal_hide_def call_dispatch_default)
  then have h: "\<exists>g'. NiceModal_hide modal g = (Inl (Error no_dispatch_message), g')
            \<and> promises g' = promises g \<and> hideModalCallbacks g' = hideModalCallbacks g"
    using fr by simp
  have r: "\<exists>g'. NiceModal_remove modal g = (Inl (Error no_dispatch_message), g')"
    using id d1 by (simp add: NiceModal_remove_def call_dispatch_default)
  have f: "setFlags mid fl g = (Inl (Error no_dispatch_message), g)"
    using assms by (simp add: setFlags_def call_dispatch_default)
  have "no_dispatch_message =
          ''No dispatch method detected, did you embed your app with '' @ ''NiceModal.Provider'' @ ''?''"
    by (simp add: no_dispatch_message_def)
  then have m: "sublist ''NiceModal.Provider'' no_dispatch_message"
    unfolding sublist_def by blast
  from s h r f m show ?thesis by blast
qed

theorem no_provider_throws_witness:
  "dispatch (initial_globals :: unit globals) = DefaultDispatch
   \<and> fst (NiceModal_show (ModalStr ''test-modal-without-provider'') JUndefined
            (initial_globals :: unit globals))
       = Inl (Error ''No dispatch method detected, did you embed your app with NiceModal.Provider?'')"
proof -
  have d: "dispatch (initial_globals :: unit globals) = DefaultDispatch"
    by (simp add: initial_globals_def)
  from no_provider_throws [OF d, of "ModalStr ''test-modal-without-provider''" JUndefined
      "''test-modal-without-provider''" keepMounted_flags]
  have "fst (NiceModal_show (ModalStr ''test-modal-without-provider'') JUndefined
            (initial_globals :: unit globals)) = Inl (Error no_dispatch_message)"
    by auto
  with d show ?thesis
    by (simp add: no_dispatch_message_def)
qed

section \<open>Registering an id twice\<close>

lemma truthy_not_nullish: "truthy v \<Longrightarrow> \<not> nullish v"
  by (cases v) simp_all

lemma register_known:
  assumes "MODAL_REGISTRY g k = Some r"
  shows "register k c p g = (Inr (), g\<lparr>MODAL_REGISTRY := (MODAL_REGISTRY g)(k \<mapsto> r\<lparr>props := p\<rparr>)\<rparr>)"
  using assms by (simp add: register_def js_get_def)

lemma register_keeps_component:
  "(MODAL_REGISTRY g k = None \<and> \<not> truthy (inherited (Object_prototype g) k) \<longrightarrow>
      (\<exists>g1 g2. register k compA args1 g = (Inr (), g1)
         \<and> register k compB args2 g1 = (Inr (), g2)
         \<and> getModal k g2 = Typed compA
         \<and> map_option props (MODAL_REGISTRY g2 k) = Some args2))
   \<and> (MODAL_REGISTRY g k = Some r \<longrightarrow>
      (\<exists>g2. register k compB args2 g = (Inr (), g2)
         \<and> getModal k g2 = Typed (comp r)
         \<and> map_option props (MODAL_REGISTRY g2 k) = Some args2))"
proof (intro conjI impI)
  assume a: "MODAL_REGISTRY g k = None \<and> \<not> truthy (inherited (Object_prototype g) k)"
  then have "\<not> present (js_get (Object_prototype g) (MODAL_REGISTRY g) k)"
    by (simp add: js_get_def)
  from register_insert [OF this, of compA args1]
  have r1: "register k compA args1 g =
      (Inr (), g\<lparr>MODAL_REGISTRY := (MODAL_REGISTRY g)(k \<mapsto> \<lparr>comp = compA, props = args1\<rparr>)\<rparr>)" .
  let ?g1 = "g\<lparr>MODAL_REGISTRY := (MODAL_REGISTRY g)(k \<mapsto> \<lparr>comp = compA, props = args1\<rparr>)\<rparr>"
  have "MODAL_REGISTRY ?g1 k = Some \<lparr>comp = compA, props = args1\<rparr>"
    by simp
  from register_known [OF this, of compB args2] r1
  show "\<exists>g1 g2. register k compA args1 g = (Inr (), g1)
         \<and> register k compB args2 g1 = (Inr (), g2)
         \<and> getModal k g2 = Typed compA
         \<and> map_option props (MODAL_REGISTRY g2 k) = Some args2"
    by (simp add: getModal_def js_get_def)
next
  assume "MODAL_REGISTRY g k = Some r"
  from register_known [OF this, of compB args2]
  show "\<exists>g2. register k compB args2 g = (Inr (), g2)
         \<and> getModal k g2 = Typed (comp r)
         \<and> map_option props (MODAL_REGISTRY g2 k) = Some args2"
    by (simp add: getModal_def js_get_def)
qed

text \<open>
  C4 holds for every id under which a plain object inherits nothing truthy
  (\<open>register_keeps_component\<close>), and fails otherwise: \<open>!MODAL_REGISTRY[id]\<close> is false for
  the name of a member of \<open>Object.prototype\<close>, so a first registration takes the branch
  for a known id. After \<open>register('constructor', CompA)\<close> and
  \<open>register('constructor', CompB, {x: 1})\<close> on the freshly loaded module, both calls have
  written \<open>props\<close> on the inherited function, the registry has no entry for the id, and
  \<open>getModal\<close> gives \<open>undefined\<close>, where the claim has \<open>CompA\<close>.
\<close>

theorem register_inherited_name_lost:
  "fst (register ''constructor'' ''CompA'' JUndefined (initial_globals :: string globals)) = Inr ()
   \<and> fst (register ''constructor'' ''CompB'' (JObj [(''x'', JNum 1)])
          (snd (register ''constructor'' ''CompA'' JUndefined
             (initial_globals :: string globals)))) = Inr ()
   \<and> getModal ''constructor''
        (snd (register ''constructor'' ''CompB'' (JObj [(''x'', JNum 1)])
          (snd (register ''constructor'' ''CompA'' JUndefined
             (initial_globals :: string globals))))) = Untyped JUndefined
   \<and> MODAL_REGISTRY
        (snd (register ''constructor'' ''CompB'' (JObj [(''x'', JNum 1)])
          (snd (register ''constructor'' ''CompA'' JUndefined
             (initial_globals :: string globals))))) ''constructor'' = None"
proof -
  let ?g = "initial_globals :: string globals"
  let ?g1 = "?g\<lparr>Object_prototype :=
      (Object_prototype ?g)(''constructor'' \<mapsto> JObj [(''props'', JUndefined)])\<rparr>"
  let ?g2 = "?g1\<lparr>Object_prototype :=
      (Object_prototype ?g1)(''constructor'' \<mapsto> JObj [(''props'', JObj [(''x'', JNum 1)])])\<rparr>"
  have i: "inherited (Object_prototype ?g) ''constructor'' = JObj []"
    by (simp add: initial_globals_def inherited_initial_builtin builtin_names_def)
  have n: "MODAL_REGISTRY ?g ''constructor'' = None"
    by (simp add: initial_globals_def)
  from i n have r1: "register ''constructor'' ''CompA'' JUndefined ?g = (Inr (), ?g1)"
    by (simp add: register_def js_get_def)
  have i1: "inherited (Object_prototype ?g1) ''constructor'' = JObj [(''props'', JUndefined)]"
    by (simp add: inherited_def)
  have n1: "MODAL_REGISTRY ?g1 ''constructor'' = None"
    using n by simp
  from i1 n1 have r2:
    "register ''constructor'' ''CompB'' (JObj [(''x'', JNum 1)]) ?g1 = (Inr (), ?g2)"
    by (simp add: register_def js_get_def)
  have i2: "inherited (Object_prototype ?g2) ''constructor''
              = JObj [(''props'', JObj [(''x'', JNum 1)])]"
    by (simp add: inherited_def)
  have p: "inherited (Object_prototype ?g2) ''comp'' = JUndefined"
    by (simp add: inherited_def initial_globals_def Object_prototype_initial_def
        builtin_names_def)
  have n2: "MODAL_REGISTRY ?g2 ''constructor'' = None"
    using n by simp
  from i2 n2 p have "getModal ''constructor'' ?g2 = Untyped JUndefined"
    by (simp add: getModal_def js_get_def prop_of_def)
  with r1 r2 n2 show ?thesis
    by simp
qed

section \<open>Show and hide after the dispatch\<close>

lemma show_finish_own:
  assumes "modalCallbacks g mid = Some cb"
  shows "show_finish mid g = (Inr (Typed (promise cb)), g)"
  using assms by (simp add: show_finish_def js_get_def)

lemma hide_finish_own:
  assumes "hideModalCallbacks g mid = Some cb"
  shows "hide_finish mid g =
           (Inr (Typed (promise cb)), g\<lparr>modalCallbacks := (modalCallbacks g)(mid := None)\<rparr>)"
  using assms by (simp add: hide_finish_def js_get_def)

lemma show_finish_fresh:
  assumes "\<not> present (js_get (Object_prototype g) (modalCallbacks g) mid)"
  shows "show_finish mid g =
           (Inr (Typed (length (promises g))),
            g\<lparr>modalCallbacks := (modalCallbacks g)(mid \<mapsto> fst (new_callback (promises g))),
               promises := promises g @ [Pending]\<rparr>)"
  using assms by (simp add: show_finish_def js_get_def new_callback_def Let_def)

lemma show_finish_typed:
  assumes "show_finish mid g = (Inr (Typed p), g')"
  shows "\<exists>cb. modalCallbacks g' mid = Some cb \<and> promise cb = p"
proof (cases "present (js_get (Object_prototype g) (modalCallbacks g) mid)")
  case False
  from show_finish_fresh [OF False] assms show ?thesis
    by (auto simp add: new_callback_def Let_def)
next
  case True
  then show ?thesis
    using assms
    by (cases "js_get (Object_prototype g) (modalCallbacks g) mid")
      (auto simp add: show_finish_def js_get_def split: option.splits if_splits)
qed

lemma show_finish_returns:
  "\<exists>r g'. show_finish mid g = (Inr r, g')"
proof (cases "present (js_get (Object_prototype g) (modalCallbacks g) mid)")
  case False
  from show_finish_fresh [OF False] show ?thesis by simp
next
  case True
  then show ?thesis
    by (cases "js_get (Object_prototype g) (modalCallbacks g) mid")
      (auto simp add: show_finish_def truthy_not_nullish)
qed

lemma show_steps:
  assumes "show_prepare modal g = (Inr mid, g1)"
    and "call_dispatch (showModal mid a) g1 = (Inr (), g2)"
  shows "NiceModal_show modal a g = show_finish mid g2"
  using assms by (simp add: NiceModal_show_def)

lemma show_typed_entry:
  assumes "NiceModal_show modal a g = (Inr (Typed p), g')"
  shows "\<exists>cb. modalCallbacks g' (fst (getModalId modal g)) = Some cb \<and> promise cb = p"
proof -
  from show_prepare_returns [of modal g] obtain mid g1 where
    sp: "show_prepare modal g = (Inr mid, g1)" and m: "mid = fst (getModalId modal g)"
    by blast
  obtain r g2 where cd: "call_dispatch (showModal mid a) g1 = (r, g2)"
    by (cases "call_dispatch (showModal mid a) g1")
  with sp assms have "show_finish mid g2 = (Inr (Typed p), g')"
    by (cases r) (simp_all add: NiceModal_show_def)
  from show_finish_typed [OF this] m show ?thesis by simp
qed

lemma show_returns_when_dispatch_returns:
  assumes "show_prepare modal g = (Inr mid, g1)"
    and "call_dispatch (showModal mid a) g1 = (Inr (), g2)"
  shows "\<exists>r g'. NiceModal_show modal a g = (Inr r, g')"
  using show_steps [OF assms] show_finish_returns [of mid g2] by simp

lemma mocked_globals_fields:
  "dispatch (mocked_globals :: 'c globals) = Installed mock_dispatch"
  "modalCallbacks (mocked_globals :: 'c globals) = Map.empty"
  "promises (mocked_globals :: 'c globals) = []"
  "Object_prototype (mocked_globals :: 'c globals) = Object_prototype_initial"
  by (simp_all add: mocked_globals_def Provider_def initial_globals_def)

lemma hide_finish_fresh:
  assumes "\<not> present (js_get (Object_prototype g) (hideModalCallbacks g) mid)"
  shows "hide_finish mid g =
           (Inr (Typed (length (promises g))),
            g\<lparr>modalCallbacks := (modalCallbacks g)(mid := None),
               hideModalCallbacks :=
                 (hideModalCallbacks g)(mid \<mapsto> fst (new_callback (promises g))),
               promises := promises g @ [Pending]\<rparr>)"
  using assms
  by (cases "hideModalCallbacks g mid") (simp_all add: hide_finish_def js_get_def new_callback_def Let_def)

lemma hide_finish_returns:
  "\<exists>r g'. hide_finish mid g = (Inr r, g')"
proof (cases "present (js_get (Object_prototype g) (hideModalCallbacks g) mid)")
  case False
  from hide_finish_fresh [OF False] show ?thesis by simp
next
  case True
  then show ?thesis
    by (cases "hideModalCallbacks g mid")
      (auto simp add: hide_finish_def js_get_def truthy_not_nullish)
qed

lemma hide_returns_when_dispatch_returns:
  assumes "getModalId modal g = (mid, g1)"
    and "call_dispatch (hideModal mid) g1 = (Inr (), g2)"
  shows "\<exists>r g'. NiceModal_hide modal g = (Inr r, g')"
  using assms hide_finish_returns [of mid g2] by (simp add: NiceModal_hide_def)

lemma show_inherited_name_returns_undefined:
  "NiceModal_show (ModalStr ''toString'') a (mocked_globals :: 'c globals)
     = (Inr (Untyped JUndefined), mocked_globals)"
proof -
  let ?g = "mocked_globals :: 'c globals"
  note mf = mocked_globals_fields [where 'c = 'c]
  have sp: "show_prepare (ModalStr ''toString'') ?g = (Inr ''toString'', ?g)"
    by (simp add: show_prepare_def)
  have cd: "call_dispatch (showModal ''toString'' a) ?g = (Inr (), ?g)"
    by (simp add: call_dispatch_mock mf)
  have i: "inherited Object_prototype_initial ''toString'' = JObj []"
    by (simp add: inherited_initial_builtin builtin_names_def)
  have p: "inherited Object_prototype_initial ''promise'' = JUndefined"
    by (simp add: inherited_initial_plain builtin_names_def)
  from i p have "show_finish ''toString'' ?g = (Inr (Untyped JUndefined), ?g)"
    by (simp add: show_finish_def js_get_def mf prop_of_def)
  with show_steps [OF sp cd] show ?thesis by simp
qed

text \<open>
  C2. The callback tables are keyed by id, so each holds at most one entry per id.
  When the table of show callbacks holds an entry for the id once the dispatch of
  \<open>show\<close> has returned, \<open>show\<close> returns that entry's promise and creates nothing: no
  entry and no promise. When \<open>show\<close> returns a promise, the table holds an entry for
  the id with that promise. So a further \<open>show(id)\<close> whose dispatch leaves that entry in
  place (it is deleted when the promise is settled through the handler, or discarded by
  \<open>hide\<close> or \<open>remove\<close>) returns the same promise. \<open>hide\<close> treats the table of hide
  callbacks in the same way.
\<close>

theorem show_reuses_pending_promise:
  "(show_prepare modal g = (Inr mid, g1) \<longrightarrow>
    call_dispatch (showModal mid a) g1 = (Inr (), g2) \<longrightarrow>
    modalCallbacks g2 mid = Some cb \<longrightarrow>
      NiceModal_show modal a g = (Inr (Typed (promise cb)), g2))
   \<and> (NiceModal_show modal a g = (Inr (Typed p), g') \<longrightarrow>
        (\<exists>cb'. modalCallbacks g' (fst (getModalId modal g)) = Some cb' \<and> promise cb' = p))
   \<and> (NiceModal_show (ModalStr k) a s = (Inr (Typed p), s1) \<longrightarrow>
       call_dispatch (showModal k b) s1 = (Inr (), s2) \<longrightarrow>
       modalCallbacks s2 k = modalCallbacks s1 k \<longrightarrow>
         NiceModal_show (ModalStr k) b s1 = (Inr (Typed p), s2))
   \<and> (getModalId modal g = (mid, g1) \<longrightarrow>
       call_dispatch (hideModal mid) g1 = (Inr (), g2) \<longrightarrow>
       hideModalCallbacks g2 mid = Some cb \<longrightarrow>
         NiceModal_hide modal g =
           (Inr (Typed (promise cb)), g2\<lparr>modalCallbacks := (modalCallbacks g2)(mid := None)\<rparr>))"
proof (intro conjI impI)
  assume "show_prepare modal g = (Inr mid, g1)"
    and "call_dispatch (showModal mid a) g1 = (Inr (), g2)"
    and "modalCallbacks g2 mid = Some cb"
  then show "NiceModal_show modal a g = (Inr (Typed (promise cb)), g2)"
    by (simp add: show_steps show_finish_own)
next
  assume "NiceModal_show modal a g = (Inr (Typed p), g')"
  then show "\<exists>cb'. modalCallbacks g' (fst (getModalId modal g)) = Some cb' \<and> promise cb' = p"
    by (rule show_typed_entry)
next
  assume first: "NiceModal_show (ModalStr k) a s = (Inr (Typed p), s1)"
    and cd: "call_dispatch (showModal k b) s1 = (Inr (), s2)"
    and same: "modalCallbacks s2 k = modalCallbacks s1 k"
  from show_typed_entry [OF first] obtain cb1 where
    "modalCallbacks s1 k = Some cb1" "promise cb1 = p"
    by auto
  with same have "modalCallbacks s2 k = Some cb1"
    by simp
  moreover have "show_prepare (ModalStr k) s1 = (Inr k, s1)"
    by (simp add: show_prepare_def)
  ultimately show "NiceModal_show (ModalStr k) b s1 = (Inr (Typed p), s2)"
    using cd \<open>promise cb1 = p\<close> by (simp add: show_steps show_finish_own)
next
  assume "getModalId modal g = (mid, g1)"
    and "call_dispatch (hideModal mid) g1 = (Inr (), g2)"
    and "hideModalCallbacks g2 mid = Some cb"
  then show "NiceModal_hide modal g =
      (Inr (Typed (promise cb)), g2\<lparr>modalCallbacks := (modalCallbacks g2)(mid := None)\<rparr>)"
    by (simp add: NiceModal_hide_def hide_finish_own)
qed

theorem show_reuses_pending_promise_witness:
  "fst (NiceModal_show (ModalStr ''m1'') (JObj [(''a'', JNum 1)])
          (mocked_globals :: unit globals)) = Inr (Typed 0)
   \<and> (\<exists>cb. modalCallbacks (snd (NiceModal_show (ModalStr ''m1'') (JObj [(''a'', JNum 1)])
          (mocked_globals :: unit globals))) ''m1'' = Some cb \<and> promise cb = 0)
   \<and> fst (NiceModal_show (ModalStr ''m1'') (JObj [(''a'', JNum 2)])
          (snd (NiceModal_show (ModalStr ''m1'') (JObj [(''a'', JNum 1)])
             (mocked_globals :: unit globals)))) = Inr (Typed 0)
   \<and> promises (snd (NiceModal_show (ModalStr ''m1'') (JObj [(''a'', JNum 2)])
          (snd (NiceModal_show (ModalStr ''m1'') (JObj [(''a'', JNum 1)])
             (mocked_globals :: unit globals))))) = [Pending]
   \<and> fst (NiceModal_hide (ModalStr ''m1'') (mocked_globals :: unit globals)) = Inr (Typed 0)
   \<and> fst (NiceModal_hide (ModalStr ''m1'')
          (snd (NiceModal_hide (ModalStr ''m1'') (mocked_globals :: unit globals))))
       = Inr (Typed 0)"
proof -
  let ?g = "mocked_globals :: unit globals"
  let ?a = "JObj [(''a'', JNum 1)]"
  let ?b = "JObj [(''a'', JNum 2)]"
  note mf = mocked_globals_fields [where 'c = unit]
  have sp: "show_prepare (ModalStr ''m1'') ?g = (Inr ''m1'', ?g)"
    by (simp add: show_prepare_def)
  have cd: "call_dispatch (showModal ''m1'' ?a) ?g = (Inr (), ?g)"
    by (simp add: call_dispatch_mock mf)
  have inh: "inherited Object_prototype_initial ''m1'' = JUndefined"
    by (simp add: inherited_initial_plain builtin_names_def)
  then have "\<not> present (js_get (Object_prototype ?g) (modalCallbacks ?g) ''m1'')"
    by (simp add: js_get_def mf)
  from show_finish_fresh [OF this] show_steps [OF sp cd]
  obtain g1 where s1: "NiceModal_show (ModalStr ''m1'') ?a ?g = (Inr (Typed 0), g1)"
    and p1: "promises g1 = [Pending]" and d1: "dispatch g1 = Installed mock_dispatch"
    by (simp add: mf)
  have cd1: "call_dispatch (showModal ''m1'' ?b) g1 = (Inr (), g1)"
    using d1 by (simp add: call_dispatch_mock)
  note t1 = show_reuses_pending_promise [of "ModalStr ''m1''" ?g "''m1''" ?g ?a ?g
      "fst (new_callback [])" 0 g1 "''m1''" ?g g1 ?b g1]
  from t1 s1 have e1: "\<exists>cb. modalCallbacks g1 ''m1'' = Some cb \<and> promise cb = 0"
    by simp
  from t1 s1 cd1 have s2: "NiceModal_show (ModalStr ''m1'') ?b g1 = (Inr (Typed 0), g1)"
    by simp
  have hn: "\<not> present (js_get (Object_prototype ?g) (hideModalCallbacks ?g) ''m1'')"
    using inh by (simp add: js_get_def mf mocked_globals_def Provider_def initial_globals_def)
  have cdh: "call_dispatch (hideModal ''m1'') ?g = (Inr (), ?g)"
    by (simp add: call_dispatch_mock mf)
  from hide_finish_fresh [OF hn] cdh
  obtain g3 where h1: "NiceModal_hide (ModalStr ''m1'') ?g = (Inr (Typed 0), g3)"
    and c3: "hideModalCallbacks g3 ''m1'' = Some (fst (new_callback []))"
    and d3: "dispatch g3 = Installed mock_dispatch"
    by (simp add: NiceModal_hide_def mf)
  have cd3: "call_dispatch (hideModal ''m1'') g3 = (Inr (), g3)"
    using d3 by (simp add: call_dispatch_mock)
  have id3: "getModalId (ModalStr ''m1'') g3 = (''m1'', g3)"
    by simp
  from show_reuses_pending_promise [of "ModalStr ''m1''" g3 "''m1''" g3 ?a g3
      "fst (new_callback [])" 0 g3 "''m1''" ?g g1 ?b g1] id3 cd3 c3
  have h2: "fst (NiceModal_hide (ModalStr ''m1'') g3) = Inr (Typed 0)"
    by (simp add: new_callback_def)
  from s1 e1 s2 p1 h1 h2 show ?thesis by simp
qed

section \<open>Settling through the handler\<close>

lemma useModal_handler:
  assumes "useModal modal ctx_id ctx g0 = (Inr h, g1)"
  shows "h_resolve h = handler_resolve (h_id h)"
    "h_reject h = handler_reject (h_id h)"
    "h_resolveHide h = handler_resolveHide (h_id h)"
    "h_hide h = NiceModal_hide (ModalStr (h_id h))"
    "h_remove h = NiceModal_remove (ModalStr (h_id h))"
    "h_show h = NiceModal_show (ModalStr (h_id h))"
    "h_id h \<noteq> []"
  using assms
  by (auto simp add: useModal_def Let_def split: prod.splits option.splits if_splits)

lemma useModal_string_id:
  assumes "k \<noteq> []"
  shows "\<exists>h. useModal (Some (ModalStr k)) ctx_id ctx g = (Inr h, g) \<and> h_id h = k"
  using assms by (cases k) (simp_all add: useModal_def)

lemma useModal_context_id:
  assumes "k \<noteq> []"
  shows "\<exists>h. useModal None (Some k) ctx g = (Inr h, g) \<and> h_id h = k"
  using assms by (simp add: useModal_def)

lemma handler_resolve_own:
  assumes "modalCallbacks g k = Some cb"
  shows "handler_resolve k v g =
           (Inr (), g\<lparr>promises := resolve cb v (promises g),
                      modalCallbacks := (modalCallbacks g)(k := None)\<rparr>)"
    "handler_reject k v g =
           (Inr (), g\<lparr>promises := reject cb v (promises g),
                      modalCallbacks := (modalCallbacks g)(k := None)\<rparr>)"
  using assms by (simp_all add: handler_resolve_def handler_reject_def js_get_def)

lemma handler_resolve_plain_absent:
  assumes "modalCallbacks g k = None" "nullish (inherited (Object_prototype g) k)"
  shows "handler_resolve k v g = (Inr (), g)" "handler_reject k v g = (Inr (), g)"
  using assms by (simp_all add: handler_resolve_def handler_reject_def js_get_def fun_upd_idem)

lemma handler_resolve_inherited:
  assumes "modalCallbacks g k = None" "\<not> nullish (inherited (Object_prototype g) k)"
  shows "handler_resolve k v g = (Inl (TypeError ''resolve is not a function''), g)"
    "handler_reject k v g = (Inl (TypeError ''reject is not a function''), g)"
  using assms by (simp_all add: handler_resolve_def handler_reject_def js_get_def)

lemma new_callback_settles:
  assumes "p < length heap" "heap ! p = Pending" "promise (fst (new_callback heap0)) = p"
  shows "resolve (fst (new_callback heap0)) v heap ! p = Fulfilled v"
    "reject (fst (new_callback heap0)) v heap ! p = Rejected v"
  using assms
  by (simp_all add: new_callback_def settle_def Let_def)

lemma handler_settles_once_on_plain_id:
  assumes um: "useModal modal ctx_id ctx g0 = (Inr h, g1)"
    and plain: "nullish (inherited (Object_prototype g) (h_id h))"
  shows "(modalCallbacks g (h_id h) = Some cb \<longrightarrow>
            h_resolve h v g =
              (Inr (), g\<lparr>promises := resolve cb v (promises g),
                         modalCallbacks := (modalCallbacks g)(h_id h := None)\<rparr>)
            \<and> h_reject h v g =
              (Inr (), g\<lparr>promises := reject cb v (promises g),
                         modalCallbacks := (modalCallbacks g)(h_id h := None)\<rparr>))
       \<and> (modalCallbacks g (h_id h) = None \<longrightarrow>
            h_resolve h v g = (Inr (), g) \<and> h_reject h v g = (Inr (), g))
       \<and> (\<exists>g'. h_resolve h v g = (Inr (), g') \<and> modalCallbacks g' (h_id h) = None
              \<and> h_resolve h w g' = (Inr (), g') \<and> h_reject h w g' = (Inr (), g'))
       \<and> (\<exists>g'. h_reject h v g = (Inr (), g') \<and> modalCallbacks g' (h_id h) = None
              \<and> h_resolve h w g' = (Inr (), g') \<and> h_reject h w g' = (Inr (), g'))"
proof -
  note hd = useModal_handler [OF um]
  let ?k = "h_id h"
  have present: "modalCallbacks g ?k = Some cb \<longrightarrow>
            h_resolve h v g =
              (Inr (), g\<lparr>promises := resolve cb v (promises g),
                         modalCallbacks := (modalCallbacks g)(?k := None)\<rparr>)
            \<and> h_reject h v g =
              (Inr (), g\<lparr>promises := reject cb v (promises g),
                         modalCallbacks := (modalCallbacks g)(?k := None)\<rparr>)"
    by (simp add: hd(1,2) handler_resolve_own)
  have absent: "modalCallbacks g ?k = None \<longrightarrow>
            h_resolve h v g = (Inr (), g) \<and> h_reject h v g = (Inr (), g)"
    using plain by (simp add: hd(1,2) handler_resolve_plain_absent)
  have again: "\<exists>g'. f v g = (Inr (), g') \<and> modalCallbacks g' ?k = None
              \<and> h_resolve h w g' = (Inr (), g') \<and> h_reject h w g' = (Inr (), g')"
    if f: "f = handler_resolve ?k \<or> f = handler_reject ?k" for f
  proof (cases "modalCallbacks g ?k")
    case None
    with plain f have "f v g = (Inr (), g)"
      by (auto simp add: handler_resolve_plain_absent)
    with None plain show ?thesis
      by (simp add: hd(1,2) handler_resolve_plain_absent)
  next
    case (Some cb0)
    let ?r = "\<lambda>x. g\<lparr>promises := x, modalCallbacks := (modalCallbacks g)(?k := None)\<rparr>"
    from Some f obtain x where fx: "f v g = (Inr (), ?r x)"
      by (auto simp add: handler_resolve_own)
    have "modalCallbacks (?r x) ?k = None"
      "nullish (inherited (Object_prototype (?r x)) ?k)"
      using plain by simp_all
    with fx show ?thesis
      by (simp add: hd(1,2) handler_resolve_plain_absent)
  qed
  from present absent again [of "handler_resolve ?k"] again [of "handler_reject ?k"]
  show ?thesis
    by (simp add: hd(1,2))
qed

text \<open>
  C6 holds for the handler of every id under which a plain object inherits nothing but
  \<open>undefined\<close> or \<open>null\<close> (\<open>handler_settles_once_on_plain_id\<close>), and fails otherwise:
  \<open>modalCallbacks[mid]?.resolve(payload)\<close> skips the call only when \<open>modalCallbacks[mid]\<close>
  is nullish. For the handler that \<open>useModal('constructor')\<close> returns on the freshly loaded
  module, where no callback was ever pending, \<open>resolve\<close> and \<open>reject\<close> throw a
  \<open>TypeError\<close>, where the claim has a call that does nothing and does not throw.
\<close>

theorem handler_inherited_name_throws:
  "\<exists>h. useModal (Some (ModalStr ''constructor'')) None initialState
          (initial_globals :: unit globals) = (Inr h, initial_globals)
     \<and> h_id h = ''constructor''
     \<and> modalCallbacks (initial_globals :: unit globals) ''constructor'' = None
     \<and> h_resolve h (JNum 1) initial_globals
         = (Inl (TypeError ''resolve is not a function''), initial_globals)
     \<and> h_reject h (JNum 1) initial_globals
         = (Inl (TypeError ''reject is not a function''), initial_globals)"
proof -
  let ?g = "initial_globals :: unit globals"
  from useModal_string_id [of "''constructor''" None initialState ?g]
  obtain h where um: "useModal (Some (ModalStr ''constructor'')) None initialState ?g = (Inr h, ?g)"
    and k: "h_id h = ''constructor''"
    by auto
  note hd = useModal_handler [OF um]
  have n: "modalCallbacks ?g ''constructor'' = None"
    by (simp add: initial_globals_def)
  have "inherited (Object_prototype ?g) ''constructor'' = JObj []"
    by (simp add: initial_globals_def inherited_initial_builtin builtin_names_def)
  then have i: "\<not> nullish (inherited (Object_prototype ?g) ''constructor'')"
    by simp
  from handler_resolve_inherited [OF n i, of "JNum 1"] um k n show ?thesis
    by (simp add: hd(1,2))
qed

section \<open>The adapter for the open convention\<close>

lemma antdModalV5_afterClose:
  "v5_afterClose (antdModalV5 m s0) s =
     (case h_resolveHide m JUndefined s of
        (Inl e, s1) \<Rightarrow> (Inl e, s1)
      | (Inr u, s1) \<Rightarrow> (if \<not> h_keepMounted m s1 then h_remove m s1 else (Inr (), s1)))"
  by (simp add: antdModalV5_def antdModal_def Let_def)

lemma spy_fields:
  "h_resolveHide (spy m) v (s, log) =
     (fst (h_resolveHide m v s), (snd (h_resolveHide m v s), log @ [CallResolveHide v]))"
  "h_remove (spy m) (s, log) = (fst (h_remove m s), (snd (h_remove m s), log @ [CallRemove]))"
  "h_keepMounted (spy m) (s, log) = h_keepMounted m s"
  "h_visible (spy m) (s, log) = h_visible m s"
  by (simp_all add: spy_def logged_def split_beta)

text \<open>
  C9. For every handler and every state in which its \<open>resolveHide\<close> returns,
  \<open>antdModalV5\<close> exposes \<open>open\<close> equal to the handler's \<open>visible\<close>, and \<open>afterClose\<close> calls
  \<open>resolveHide\<close> once, with no argument, and then \<open>remove\<close> once if \<open>keepMounted\<close> is
  false; if \<open>keepMounted\<close> is true, \<open>remove\<close> is not called. The calls are those recorded
  by the wrapper \<open>spy\<close>.
\<close>

theorem antdModalV5_adapter:
  assumes "h_resolveHide m JUndefined s = (Inr (), s1)"
  shows "v5_open (antdModalV5 m s0) = h_visible m s0
     \<and> v5_afterClose (antdModalV5 (spy m) (s0, log0)) (s, log) =
         (if h_keepMounted m s1 then (Inr (), (s1, log @ [CallResolveHide JUndefined]))
          else (fst (h_remove m s1),
                (snd (h_remove m s1), log @ [CallResolveHide JUndefined, CallRemove])))
     \<and> v5_afterClose (antdModalV5 m s0) s =
         (if h_keepMounted m s1 then (Inr (), s1) else h_remove m s1)"
proof -
  have "v5_open (antdModalV5 m s0) = h_visible m s0"
    by (simp add: antdModalV5_def Let_def)
  moreover have "v5_afterClose (antdModalV5 (spy m) (s0, log0)) (s, log) =
         (if h_keepMounted m s1 then (Inr (), (s1, log @ [CallResolveHide JUndefined]))
          else (fst (h_remove m s1),
                (snd (h_remove m s1), log @ [CallResolveHide JUndefined, CallRemove])))"
    using assms by (simp add: antdModalV5_afterClose spy_fields)
  moreover have "v5_afterClose (antdModalV5 m s0) s =
         (if h_keepMounted m s1 then (Inr (), s1) else h_remove m s1)"
    using assms by (simp add: antdModalV5_afterClose)
  ultimately show ?thesis by blast
qed

theorem antdModalV5_adapter_witness:
  "h_resolveHide test_modal JUndefined () = (Inr (), ())
   \<and> v5_open (antdModalV5 test_modal ()) = True
   \<and> v5_afterClose (antdModalV5 (spy test_modal) ((), [])) ((), [])
       = (Inr (), ((), [CallResolveHide JUndefined, CallRemove]))"
proof -
  have r: "h_resolveHide test_modal JUndefined () = (Inr (), ())"
    by (simp add: test_modal_def)
  have "h_visible test_modal () = True" "h_keepMounted test_modal () = False"
    "h_remove test_modal () = (Inr (), ())"
    by (simp_all add: test_modal_def)
  with antdModalV5_adapter [OF r, of "()" "[]" "[]"] r show ?thesis
    by simp
qed

end
